theory Spec2Isabelle
  imports Complex_Main "HOL-Library.Multiset"
begin

section \<open>The book store's controllers, as functions on the stored collections\<close>

text \<open>
  The controllers of \<^verbatim>\<open>backend/controllers/bookController.js\<close> (books and authors)
  read and write six document collections and one blob bucket. Every controller is
  modelled as a function from the store before the request to the response and the
  store after it. An \<^verbatim>\<open>await\<close> is a step of the sequence: the model runs the steps
  in the order of the source and stops where the source throws.
\<close>

subsection \<open>Numbers\<close>

text \<open>
  Prices are JavaScript numbers. The model computes with rationals, so the rounding of
  IEEE doubles is not part of it, and it keeps the one special value the controllers can
  produce from the requests modelled here: \<open>NaN\<close>, the result of arithmetic on
  \<^verbatim>\<open>undefined\<close>. A numeric field of a request is \<open>rat option\<close>: \<open>None\<close> for a
  field that is absent (\<^verbatim>\<open>undefined\<close>), \<open>Some r\<close> for a number or the text of one.
\<close>

datatype jsnum = Num rat | NaN

fun to_number :: "rat option \<Rightarrow> jsnum" where
  "to_number None = NaN"
| "to_number (Some r) = Num r"

fun js_sub :: "jsnum \<Rightarrow> jsnum \<Rightarrow> jsnum" where
  "js_sub (Num a) (Num b) = Num (a - b)"
| "js_sub _ _ = NaN"

fun js_mul :: "jsnum \<Rightarrow> jsnum \<Rightarrow> jsnum" where
  "js_mul (Num a) (Num b) = Num (a * b)"
| "js_mul _ _ = NaN"

text \<open>\<^verbatim>\<open>x / 100\<close>, the only division of the controllers.\<close>

fun js_div100 :: "jsnum \<Rightarrow> jsnum" where
  "js_div100 (Num a) = Num (a / 100)"
| "js_div100 NaN = NaN"

text \<open>\<^verbatim>\<open>x || y\<close> on a numeric request field: \<^verbatim>\<open>undefined\<close> and \<open>0\<close> are falsy.\<close>

fun or_else :: "rat option \<Rightarrow> rat \<Rightarrow> rat" where
  "or_else None y = y"
| "or_else (Some x) y = (if x = 0 then y else x)"

text \<open>The formula of the specification: \<open>listPrice * (1 - discountPercent / 100)\<close>.\<close>

definition derive :: "rat \<Rightarrow> rat \<Rightarrow> rat" where
  "derive listPrice discountPercent = listPrice * (1 - discountPercent / 100)"

subsection \<open>Documents and the store\<close>

text \<open>
  A stored identifier is an ObjectId, modelled by its value. A request names a document
  by a text: \<^verbatim>\<open>findById\<close> reads the text as an ObjectId, and fails with a CastError on
  a text that is none; \<^verbatim>\<open>toString\<close> prints an ObjectId. What the driver reads and
  prints is given to the controllers that depend on the text, getBookById and
  getAuthorById, as two functions; the other controllers are modelled on the identifier
  that \<^verbatim>\<open>findById\<close> has read from the request.
\<close>

type_synonym oid = nat

record id_text =
  cast_id :: "string \<Rightarrow> oid option"
  id_string :: "oid \<Rightarrow> string"

text \<open>
  The driver prints an ObjectId as 24 hexadecimal digits in lower case, and reads a text
  of 24 hexadecimal digits without regard to the case of its letters. Here every other
  text is refused; the properties of the controllers are stated for any reading and
  printing, and this one serves the examples.
\<close>

definition hex_digit :: "nat \<Rightarrow> char" where
  "hex_digit d = ''0123456789abcdef'' ! d"

fun hex_digits :: "nat \<Rightarrow> nat \<Rightarrow> string" where
  "hex_digits 0 n = []"
| "hex_digits (Suc k) n = hex_digits k (n div 16) @ [hex_digit (n mod 16)]"

definition hex_string :: "oid \<Rightarrow> string" where
  "hex_string i = hex_digits 24 i"

definition hex_val :: "char \<Rightarrow> nat option" where
  "hex_val c =
     (if c \<in> set ''0123456789'' then Some (of_char c - 48)
      else if c \<in> set ''abcdef'' then Some (of_char c - 87)
      else if c \<in> set ''ABCDEF'' then Some (of_char c - 55)
      else None)"

fun hex_read :: "string \<Rightarrow> nat \<Rightarrow> nat option" where
  "hex_read [] acc = Some acc"
| "hex_read (c # cs) acc =
     (case hex_val c of None \<Rightarrow> None | Some d \<Rightarrow> hex_read cs (16 * acc + d))"

definition hex_cast :: "string \<Rightarrow> oid option" where
  "hex_cast p = (if length p = 24 then hex_read p 0 else None)"

definition hex_ids :: id_text where
  "hex_ids = \<lparr> cast_id = hex_cast, id_string = hex_string \<rparr>"

text \<open>
  A book document holds the paths that createBook writes, its identifier and the time of
  its creation.
\<close>

record book =
  b_id :: oid
  b_title :: string
  b_description :: string
  b_price :: rat
  b_discountPercentage :: rat
  b_originalPrice :: rat
  b_discountedPrice :: jsnum
  b_category :: string
  b_author :: string
  b_sourcePath :: string
  b_coverImage :: string
  b_samplePdf :: string
  b_createdAt :: nat

text \<open>
  The \<^verbatim>\<open>books\<close> of an author are \<^verbatim>\<open>{bookId}\<close> entries, the \<^verbatim>\<open>items\<close> of a cart and
  the \<^verbatim>\<open>books\<close> of a favorites list or an order are line items that carry a
  \<^verbatim>\<open>bookId\<close>; the controllers read nothing else of them, so each entry is modelled
  by its \<^verbatim>\<open>bookId\<close>.
\<close>

record author =
  a_id :: oid
  a_name :: string
  a_image :: "string option"
  a_books :: "oid list"

record category =
  c_id :: oid
  c_title :: string
  c_books :: "oid list"

record cart =
  cart_id :: oid
  cart_items :: "oid list"

record favorites =
  fav_id :: oid
  fav_books :: "oid list"

record order =
  o_id :: oid
  o_userId :: oid
  o_books :: "oid list"

record store =
  books :: "book list"
  authors :: "author list"
  categories :: "category list"
  carts :: "cart list"
  favoritesC :: "favorites list"
  orders :: "order list"
  bucket :: "string set"

datatype error =
    TypeError
  | CastError
  | StorageDeleteError string
  | MongoError
  | AppError string error nat

text \<open>
  What a controller does with the request: \<^verbatim>\<open>res.status(n).json(body)\<close>,
  \<^verbatim>\<open>res.status(n).json({error: msg})\<close>, or \<^verbatim>\<open>next(err)\<close>.
\<close>

datatype 'a response = Json nat 'a | ErrorJson nat string | Next error

subsection \<open>File names and blob keys\<close>

text \<open>White space, for the characters of ASCII.\<close>

definition is_space :: "char \<Rightarrow> bool" where
  "is_space c \<longleftrightarrow> c \<in> set [CHR '' '', CHR 0x09, CHR 0x0A, CHR 0x0B, CHR 0x0C, CHR 0x0D]"

text \<open>\<^verbatim>\<open>name.replace(/\s+/g, "_")\<close>: every run of white space becomes one underscore.\<close>

function sanitize :: "string \<Rightarrow> string" where
  "sanitize [] = []"
| "sanitize (c # cs) =
     (if is_space c then CHR ''_'' # sanitize (dropWhile is_space cs)
      else c # sanitize cs)"
  by pat_completeness auto
termination
  by (relation "measure length") (auto simp: length_dropWhile_le less_Suc_eq_le)

definition trim :: "string \<Rightarrow> string" where
  "trim s = rev (dropWhile is_space (rev (dropWhile is_space s)))"

text \<open>\<^verbatim>\<open>url.split("/").pop().split("?")[0].trim()\<close>\<close>

definition url_file_name :: "string \<Rightarrow> string" where
  "url_file_name url =
     trim (takeWhile (\<lambda>c. c \<noteq> CHR ''?'')
       (rev (takeWhile (\<lambda>c. c \<noteq> CHR ''/'') (rev url))))"

definition book_keys :: "book \<Rightarrow> string list" where
  "book_keys b =
     [''books/'' @ url_file_name (b_sourcePath b),
      ''covers/'' @ url_file_name (b_coverImage b),
      ''samples/'' @ url_file_name (b_samplePdf b)]"

text \<open>
  Modelled from the spec: \<^verbatim>\<open>bucket.file(key).delete()\<close> of the storage client, which
  \<^verbatim>\<open>config/firebaseConfig\<close> exports and these sources do not hold. Section 4.1:
  \<open>delete\<close> fails with a \<open>StorageDeleteError\<close>, and a blob that is not found is one of
  its failures.
\<close>

definition bucket_delete :: "string \<Rightarrow> string set \<Rightarrow> error + string set" where
  "bucket_delete k bk = (if k \<in> bk then Inr (bk - {k}) else Inl (StorageDeleteError k))"

text \<open>Deletions awaited one after the other: the first failure stops the sequence.\<close>

fun delete_keys :: "string list \<Rightarrow> string set \<Rightarrow> error option \<times> string set" where
  "delete_keys [] bk = (None, bk)"
| "delete_keys (k # ks) bk =
     (case bucket_delete k bk of
        Inl e \<Rightarrow> (Some e, bk)
      | Inr bk' \<Rightarrow> delete_keys ks bk')"

subsection \<open>Uploaded files\<close>

record upload =
  originalname :: string

text \<open>
  \<^verbatim>\<open>req.files\<close>: absent (\<open>None\<close>) when the request carried no multipart form,
  otherwise an object from field names to arrays of files.
\<close>

type_synonym files = "(string \<rightharpoonup> upload list) option"

text \<open>
  \<^verbatim>\<open>req.files[field][0]\<close>: reading a property of \<^verbatim>\<open>undefined\<close> throws a TypeError,
  the first element of an empty array is \<^verbatim>\<open>undefined\<close>.
\<close>

definition first_file :: "files \<Rightarrow> string \<Rightarrow> error + upload option" where
  "first_file fs field =
     (case fs of
        None \<Rightarrow> Inl TypeError
      | Some m \<Rightarrow>
          (case m field of
             None \<Rightarrow> Inl TypeError
           | Some [] \<Rightarrow> Inr None
           | Some (f # _) \<Rightarrow> Inr (Some f)))"

text \<open>
  What the environment decides: the signed URL the storage client issues for a key, the
  identifier of a new document, and the time of its creation.
\<close>

record env =
  signed_url :: "string \<Rightarrow> string"
  new_id :: oid
  now :: nat

subsection \<open>createBook\<close>

text \<open>
  The fields that the controller reads from the body, and the files. The texts and the
  list price are taken as supplied; the discount percent may be absent.
\<close>

record create_book_req =
  cb_title :: string
  cb_description :: string
  cb_price :: rat
  cb_category :: string
  cb_authorName :: string
  cb_discountPercentage :: "rat option"
  cb_files :: files

text \<open>
  \<^verbatim>\<open>const discountedPrice = price - price * (discountPercentage / 100)\<close>, computed
  from the request before anything else.
\<close>

definition create_discountedPrice :: "rat \<Rightarrow> rat option \<Rightarrow> jsnum" where
  "create_discountedPrice price discountPercentage =
     js_sub (Num price) (js_mul (Num price) (js_div100 (to_number discountPercentage)))"

text \<open>
  The document of \<^verbatim>\<open>new Book({...})\<close>, which \<^verbatim>\<open>save\<close> stores. The schema of the
  book model is not among the sources: the model stores the values that the controller
  computed, as they are.
\<close>

definition new_book :: "env \<Rightarrow> create_book_req \<Rightarrow> author \<Rightarrow> string \<Rightarrow> string \<Rightarrow> string \<Rightarrow> book" where
  "new_book e r au bookUrl coverUrl sampleUrl =
     \<lparr> b_id = new_id e,
       b_title = cb_title r,
       b_description = cb_description r,
       b_price = cb_price r,
       b_discountPercentage = or_else (cb_discountPercentage r) 0,
       b_originalPrice = cb_price r,
       b_discountedPrice = create_discountedPrice (cb_price r) (cb_discountPercentage r),
       b_category = cb_category r,
       b_author = a_name au,
       b_sourcePath = bookUrl,
       b_coverImage = coverUrl,
       b_samplePdf = sampleUrl,
       b_createdAt = now e \<rparr>"

text \<open>\<^verbatim>\<open>Model.findByIdAndUpdate(id, {$push: {books: x}})\<close> on categories and authors.\<close>

definition push_category_book :: "oid \<Rightarrow> oid \<Rightarrow> category list \<Rightarrow> category list" where
  "push_category_book cid x cs =
     map (\<lambda>c. if c_id c = cid then c\<lparr>c_books := c_books c @ [x]\<rparr> else c) cs"

definition push_author_book :: "oid \<Rightarrow> oid \<Rightarrow> author list \<Rightarrow> author list" where
  "push_author_book aid x as =
     map (\<lambda>a. if a_id a = aid then a\<lparr>a_books := a_books a @ [x]\<rparr> else a) as"

definition createBook :: "env \<Rightarrow> store \<Rightarrow> create_book_req \<Rightarrow> (book \<times> string) response \<times> store" where
  "createBook e s r =
     (case first_file (cb_files r) ''file'' of
        Inl err \<Rightarrow> (Next err, s)
      | Inr bookFile \<Rightarrow>
     (case first_file (cb_files r) ''cover'' of
        Inl err \<Rightarrow> (Next err, s)
      | Inr coverImageFile \<Rightarrow>
     (case first_file (cb_files r) ''sample'' of
        Inl err \<Rightarrow> (Next err, s)
      | Inr samplePdfFile \<Rightarrow>
     (case (bookFile, coverImageFile, samplePdfFile) of
        (Some bf, Some cf, Some sf) \<Rightarrow>
          (case find (\<lambda>a. a_name a = cb_authorName r) (authors s) of
             None \<Rightarrow> (ErrorJson 404 ''Author not found'', s)
           | Some au \<Rightarrow>
          (case find (\<lambda>c. c_title c = cb_category r) (categories s) of
             None \<Rightarrow> (ErrorJson 404 ''Category not found'', s)
           | Some categoryDoc \<Rightarrow>
               let bookKey = ''books/'' @ sanitize (originalname bf);
                   coverKey = ''covers/'' @ sanitize (originalname cf);
                   sampleKey = ''samples/'' @ sanitize (originalname sf);
                   newBook = new_book e r au (signed_url e bookKey)
                               (signed_url e coverKey) (signed_url e sampleKey)
               in (Json 201 (newBook, a_name au),
                   s\<lparr> bucket := bucket s \<union> {bookKey, coverKey, sampleKey},
                      books := books s @ [newBook],
                      categories := push_category_book (c_id categoryDoc) (b_id newBook) (categories s),
                      authors := push_author_book (a_id au) (b_id newBook) (authors s) \<rparr>)))
      | _ \<Rightarrow> (ErrorJson 400 ''All files (book, cover, sample) must be provided'', s)))))"

subsection \<open>Reading and writing documents\<close>

text \<open>
  \<^verbatim>\<open>doc.save()\<close> on a document read from its collection replaces the stored document
  with the same \<^verbatim>\<open>_id\<close>; \<^verbatim>\<open>findByIdAndDelete\<close> removes it.
\<close>

definition save_book :: "book \<Rightarrow> book list \<Rightarrow> book list" where
  "save_book d ds = map (\<lambda>x. if b_id x = b_id d then d else x) ds"

definition save_author :: "author \<Rightarrow> author list \<Rightarrow> author list" where
  "save_author d ds = map (\<lambda>x. if a_id x = a_id d then d else x) ds"

definition save_category :: "category \<Rightarrow> category list \<Rightarrow> category list" where
  "save_category d ds = map (\<lambda>x. if c_id x = c_id d then d else x) ds"

definition delete_book :: "oid \<Rightarrow> book list \<Rightarrow> book list" where
  "delete_book i ds = filter (\<lambda>x. b_id x \<noteq> i) ds"

definition delete_author :: "oid \<Rightarrow> author list \<Rightarrow> author list" where
  "delete_author i ds = filter (\<lambda>x. a_id x \<noteq> i) ds"

text \<open>\<^verbatim>\<open>{$pull: {items: {bookId: i}}}\<close>: every line item of that book leaves the list.\<close>

definition pull :: "oid \<Rightarrow> oid list \<Rightarrow> oid list" where
  "pull i xs = filter (\<lambda>x. x \<noteq> i) xs"

definition pull_carts :: "oid \<Rightarrow> cart list \<Rightarrow> cart list" where
  "pull_carts i cs =
     map (\<lambda>c. if i \<in> set (cart_items c) then c\<lparr>cart_items := pull i (cart_items c)\<rparr> else c) cs"

definition pull_favorites :: "oid \<Rightarrow> favorites list \<Rightarrow> favorites list" where
  "pull_favorites i fs =
     map (\<lambda>f. if i \<in> set (fav_books f) then f\<lparr>fav_books := pull i (fav_books f)\<rparr> else f) fs"

definition pull_orders :: "oid \<Rightarrow> order list \<Rightarrow> order list" where
  "pull_orders i os =
     map (\<lambda>x. if i \<in> set (o_books x) then x\<lparr>o_books := pull i (o_books x)\<rparr> else x) os"

subsection \<open>deleteBookById\<close>

text \<open>The references to the book are removed first, in five steps.\<close>

definition unlink_category :: "book \<Rightarrow> store \<Rightarrow> store" where
  "unlink_category bk s =
     (case find (\<lambda>c. c_title c = b_category bk) (categories s) of
        None \<Rightarrow> s
      | Some c \<Rightarrow>
          s\<lparr>categories :=
              save_category (c\<lparr>c_books := filter (\<lambda>b. b \<noteq> b_id bk) (c_books c)\<rparr>) (categories s)\<rparr>)"

definition unlink_author :: "book \<Rightarrow> store \<Rightarrow> store" where
  "unlink_author bk s =
     (case find (\<lambda>a. a_name a = b_author bk) (authors s) of
        None \<Rightarrow> s
      | Some a \<Rightarrow>
          s\<lparr>authors :=
              save_author (a\<lparr>a_books := filter (\<lambda>b. b \<noteq> b_id bk) (a_books a)\<rparr>) (authors s)\<rparr>)"

definition unlink_lists :: "book \<Rightarrow> store \<Rightarrow> store" where
  "unlink_lists bk s =
     s\<lparr> carts := pull_carts (b_id bk) (carts s),
        favoritesC := pull_favorites (b_id bk) (favoritesC s),
        orders := pull_orders (b_id bk) (orders s) \<rparr>"

definition unlink_book :: "book \<Rightarrow> store \<Rightarrow> store" where
  "unlink_book bk s = unlink_lists bk (unlink_author bk (unlink_category bk s))"

definition deleteBookById :: "store \<Rightarrow> oid \<Rightarrow> string response \<times> store" where
  "deleteBookById s i =
     (case find (\<lambda>b. b_id b = i) (books s) of
        None \<Rightarrow> (ErrorJson 404 ''Book not found'', s)
      | Some bk \<Rightarrow>
          let s1 = unlink_book bk s in
          (case delete_keys (book_keys bk) (bucket s1) of
             (Some e, blobs) \<Rightarrow>
               (Next (AppError ''Failed to delete book: '' e 500), s1\<lparr>bucket := blobs\<rparr>)
           | (None, blobs) \<Rightarrow>
               (Json 200 ''Book and related data deleted'',
                s1\<lparr>bucket := blobs, books := delete_book (b_id bk) (books s1)\<rparr>)))"

subsection \<open>deleteAuthor\<close>

text \<open>
  The loop over the author's books: three blob deletions and the deletion of the record
  for each book, stopping at the first deletion that fails.
\<close>

fun delete_books_loop :: "book list \<Rightarrow> store \<Rightarrow> error option \<times> store" where
  "delete_books_loop [] s = (None, s)"
| "delete_books_loop (b # bs) s =
     (case delete_keys (book_keys b) (bucket s) of
        (Some e, blobs) \<Rightarrow> (Some e, s\<lparr>bucket := blobs\<rparr>)
      | (None, blobs) \<Rightarrow>
          delete_books_loop bs (s\<lparr>bucket := blobs, books := delete_book (b_id b) (books s)\<rparr>))"

definition books_of :: "string \<Rightarrow> store \<Rightarrow> book list" where
  "books_of name s = filter (\<lambda>b. b_author b = name) (books s)"

definition deleteAuthor :: "store \<Rightarrow> oid \<Rightarrow> string response \<times> store" where
  "deleteAuthor s i =
     (case find (\<lambda>a. a_id a = i) (authors s) of
        None \<Rightarrow> (ErrorJson 404 ''Author not found'', s)
      | Some authorData \<Rightarrow>
          (case delete_books_loop (books_of (a_name authorData) s) s of
             (Some e, s1) \<Rightarrow>
               (Next (AppError ''Failed to delete author and books: '' e 500), s1)
           | (None, s1) \<Rightarrow>
               let s2 = s1\<lparr>authors := save_author (authorData\<lparr>a_books := []\<rparr>) (authors s1)\<rparr>
               in (Json 200 ''Author and their books deleted successfully'',
                   s2\<lparr>authors := delete_author i (authors s2)\<rparr>)))"

subsection \<open>Reading authors and books\<close>

text \<open>
  \<^verbatim>\<open>findById(id).populate("books.bookId")\<close>: every back-reference is replaced by the
  book it names, or by \<^verbatim>\<open>null\<close> when there is none. The body is \<^verbatim>\<open>null\<close> itself when
  no author has the identifier. On a text that is no ObjectId the query is rejected, and
  the \<^verbatim>\<open>catch\<close> of the controller wraps the error.
\<close>

definition populate :: "store \<Rightarrow> author \<Rightarrow> author \<times> book option list" where
  "populate s a = (a, map (\<lambda>i. find (\<lambda>b. b_id b = i) (books s)) (a_books a))"

definition getAuthorById ::
    "id_text \<Rightarrow> store \<Rightarrow> string \<Rightarrow> (author \<times> book option list) option response" where
  "getAuthorById c s p =
     (case cast_id c p of
        None \<Rightarrow> Next (AppError ''Failed to get author: '' CastError 500)
      | Some i \<Rightarrow> Json 200 (map_option (populate s) (find (\<lambda>a. a_id a = i) (authors s))))"

definition getAllAuthors :: "store \<Rightarrow> author list response" where
  "getAllAuthors s = Json 200 (authors s)"

definition getAllBooks :: "store \<Rightarrow> book list response" where
  "getAllBooks s = Json 200 (books s)"

subsection \<open>getBookById\<close>

text \<open>
  \<^verbatim>\<open>book.toObject()\<close>: the plain object of a document, as the list of its fields.
\<close>

datatype jsval = VId oid | VStr string | VNum jsnum

type_synonym obj = "(string \<times> jsval) list"

definition toObject :: "book \<Rightarrow> obj" where
  "toObject b =
     [(''_id'', VId (b_id b)),
      (''title'', VStr (b_title b)),
      (''description'', VStr (b_description b)),
      (''price'', VNum (Num (b_price b))),
      (''discountPercentage'', VNum (Num (b_discountPercentage b))),
      (''originalPrice'', VNum (Num (b_originalPrice b))),
      (''discountedPrice'', VNum (b_discountedPrice b)),
      (''category'', VStr (b_category b)),
      (''author'', VStr (b_author b)),
      (''sourcePath'', VStr (b_sourcePath b)),
      (''coverImage'', VStr (b_coverImage b)),
      (''samplePdf'', VStr (b_samplePdf b)),
      (''createdAt'', VNum (Num (of_nat (b_createdAt b))))]"

text \<open>\<^verbatim>\<open>const { sourcePath, ...rest } = book.toObject()\<close>\<close>

definition without_sourcePath :: "obj \<Rightarrow> obj" where
  "without_sourcePath ob = filter (\<lambda>kv. fst kv \<noteq> ''sourcePath'') ob"

text \<open>
  The two loops over the requester's orders and their line items, with their breaks.
  The test of a line item is \<^verbatim>\<open>bookItem.bookId.toString() === req.params.id\<close>: the
  printed identifier against the text of the request.
\<close>

fun item_loop :: "(oid \<Rightarrow> string) \<Rightarrow> oid list \<Rightarrow> string \<Rightarrow> bool" where
  "item_loop str [] p = False"
| "item_loop str (bookItem # rest) p =
     (if str bookItem = p then True else item_loop str rest p)"

fun order_loop :: "(oid \<Rightarrow> string) \<Rightarrow> order list \<Rightarrow> string \<Rightarrow> bool" where
  "order_loop str [] p = False"
| "order_loop str (ord # rest) p =
     (if item_loop str (o_books ord) p then True else order_loop str rest p)"

text \<open>
  \<^verbatim>\<open>Book.findById(req.params.id)\<close> reads the text; its CastError goes to \<^verbatim>\<open>next\<close>
  as it is.
\<close>

definition getBookById :: "id_text \<Rightarrow> store \<Rightarrow> oid option \<Rightarrow> string \<Rightarrow> obj response" where
  "getBookById c s user p =
     (case cast_id c p of
        None \<Rightarrow> Next CastError
      | Some i \<Rightarrow>
          (case find (\<lambda>b. b_id b = i) (books s) of
             None \<Rightarrow> ErrorJson 404 ''Book not found''
           | Some bk \<Rightarrow>
               (case user of
                  None \<Rightarrow> Json 200 (without_sourcePath (toObject bk))
                | Some userId \<Rightarrow>
                    let userOrders = filter (\<lambda>x. o_userId x = userId) (orders s) in
                    if order_loop (id_string c) userOrders p then Json 200 (toObject bk)
                    else Json 200 (without_sourcePath (toObject bk)))))"

subsection \<open>getBooks\<close>

text \<open>
  The query string. A text field is \<open>None\<close> when the parameter is absent; an empty
  text is falsy like an absent one. \<open>q_minPrice\<close> and \<open>q_maxPrice\<close> hold the number
  the text reads as, \<open>q_page\<close> and \<open>q_limit\<close> the natural number it reads as.
\<close>

record query =
  q_author :: "string option"
  q_category :: "string option"
  q_minPrice :: "rat option"
  q_maxPrice :: "rat option"
  q_search :: "string option"
  q_sortBy :: "string option"
  q_page :: "nat option"
  q_limit :: "nat option"

fun given :: "string option \<Rightarrow> string option" where
  "given None = None"
| "given (Some t) = (if t = [] then None else Some t)"

datatype sort_spec = NoSort | ByCreatedAt bool | ByDiscountedPrice bool

text \<open>The \<^verbatim>\<open>switch\<close> on \<^verbatim>\<open>sortBy\<close>: the sort document (\<open>True\<close> for 1, \<open>False\<close> for -1).\<close>

definition sort_of :: "string option \<Rightarrow> sort_spec" where
  "sort_of sortBy =
     (if sortBy = Some ''oldest'' then ByCreatedAt True
      else if sortBy = Some ''newest'' then ByCreatedAt False
      else if sortBy = Some ''on-sale'' then ByDiscountedPrice True
      else if sortBy = Some ''price-low-to-high'' then ByDiscountedPrice True
      else if sortBy = Some ''price-high-to-low'' then ByDiscountedPrice False
      else NoSort)"

text \<open>The comparison of stored numbers: \<open>NaN\<close> sorts below every number.\<close>

fun price_le :: "jsnum \<Rightarrow> jsnum \<Rightarrow> bool" where
  "price_le NaN _ = True"
| "price_le (Num a) NaN = False"
| "price_le (Num a) (Num b) = (a \<le> b)"

fun price_ge_bound :: "jsnum \<Rightarrow> rat \<Rightarrow> bool" where
  "price_ge_bound (Num a) m = (m \<le> a)"
| "price_ge_bound NaN m = False"

fun price_le_bound :: "jsnum \<Rightarrow> rat \<Rightarrow> bool" where
  "price_le_bound (Num a) m = (a \<le> m)"
| "price_le_bound NaN m = False"

text \<open>
  The filter document built from the query, as a predicate on books. The regular
  expression match of the store (\<^verbatim>\<open>$regex\<close> with option \<^verbatim>\<open>i\<close>) is the parameter
  \<open>rx\<close>, applied to the pattern and the title.
\<close>

definition matches :: "(string \<Rightarrow> string \<Rightarrow> bool) \<Rightarrow> query \<Rightarrow> book \<Rightarrow> bool" where
  "matches rx q b \<longleftrightarrow>
     (case given (q_author q) of None \<Rightarrow> True | Some a \<Rightarrow> b_author b = a) \<and>
     (case given (q_category q) of None \<Rightarrow> True | Some c \<Rightarrow> b_category b = c) \<and>
     (case q_minPrice q of None \<Rightarrow> True | Some m \<Rightarrow> price_ge_bound (b_discountedPrice b) m) \<and>
     (case q_maxPrice q of None \<Rightarrow> True | Some m \<Rightarrow> price_le_bound (b_discountedPrice b) m) \<and>
     (case given (q_search q) of None \<Rightarrow> True | Some t \<Rightarrow> rx t (b_title b)) \<and>
     (if q_sortBy q = Some ''on-sale'' then 0 < b_discountPercentage b else True)"

fun insert_by :: "('a \<Rightarrow> 'a \<Rightarrow> bool) \<Rightarrow> 'a \<Rightarrow> 'a list \<Rightarrow> 'a list" where
  "insert_by le x [] = [x]"
| "insert_by le x (y # ys) = (if le x y then x # y # ys else y # insert_by le x ys)"

definition sort_by :: "('a \<Rightarrow> 'a \<Rightarrow> bool) \<Rightarrow> 'a list \<Rightarrow> 'a list" where
  "sort_by le xs = foldr (insert_by le) xs []"

definition price_asc :: "book \<Rightarrow> book \<Rightarrow> bool" where
  "price_asc x y = price_le (b_discountedPrice x) (b_discountedPrice y)"

definition price_desc :: "book \<Rightarrow> book \<Rightarrow> bool" where
  "price_desc x y = price_le (b_discountedPrice y) (b_discountedPrice x)"

fun apply_sort :: "sort_spec \<Rightarrow> book list \<Rightarrow> book list" where
  "apply_sort NoSort bs = bs"
| "apply_sort (ByCreatedAt True) bs = sort_by (\<lambda>x y. b_createdAt x \<le> b_createdAt y) bs"
| "apply_sort (ByCreatedAt False) bs = sort_by (\<lambda>x y. b_createdAt y \<le> b_createdAt x) bs"
| "apply_sort (ByDiscountedPrice True) bs = sort_by price_asc bs"
| "apply_sort (ByDiscountedPrice False) bs = sort_by price_desc bs"

text \<open>\<^verbatim>\<open>Book.find(filter).sort(sort)\<close>: all the matching books, in the order of the sort.\<close>

definition find_sorted :: "(string \<Rightarrow> string \<Rightarrow> bool) \<Rightarrow> store \<Rightarrow> query \<Rightarrow> book list" where
  "find_sorted rx s q = apply_sort (sort_of (q_sortBy q)) (filter (matches rx q) (books s))"

definition page_of :: "query \<Rightarrow> nat" where
  "page_of q = (case q_page q of None \<Rightarrow> 1 | Some p \<Rightarrow> p)"

definition limit_of :: "query \<Rightarrow> nat" where
  "limit_of q = (case q_limit q of None \<Rightarrow> 12 | Some l \<Rightarrow> l)"

text \<open>
  \<^verbatim>\<open>.skip((page - 1) * limit).limit(Number(limit))\<close>: a limit of 0 is no limit. The
  books of the page, the array \<^verbatim>\<open>books\<close> of the controller.
\<close>

definition page_books :: "(string \<Rightarrow> string \<Rightarrow> bool) \<Rightarrow> store \<Rightarrow> query \<Rightarrow> book list" where
  "page_books rx s q =
     (let skipped = drop ((page_of q - 1) * limit_of q) (find_sorted rx s q)
      in if limit_of q = 0 then skipped else take (limit_of q) skipped)"



subsection \<open>updateBookById\<close>

text \<open>
  The fields of the body that the controllers name. \<^verbatim>\<open>Object.assign\<close> copies every
  field of the body that is present onto the book.
\<close>

record update_book_req =
  ub_title :: "string option"
  ub_description :: "string option"
  ub_price :: "rat option"
  ub_category :: "string option"
  ub_authorName :: "string option"
  ub_discountPercentage :: "rat option"
  ub_files :: files

text \<open>
  \<^verbatim>\<open>originalPrice - (originalPrice * (req.body.discountPercentage || book.discountPercentage)) / 100\<close>
\<close>

definition update_originalPrice :: "book \<Rightarrow> rat option \<Rightarrow> rat" where
  "update_originalPrice bk price = (case price of None \<Rightarrow> b_price bk | Some p \<Rightarrow> p)"

definition update_discountedPrice :: "book \<Rightarrow> rat option \<Rightarrow> rat option \<Rightarrow> rat" where
  "update_discountedPrice bk price discountPercentage =
     (let originalPrice = update_originalPrice bk price
      in originalPrice
           - (originalPrice * or_else discountPercentage (b_discountPercentage bk)) / 100)"

text \<open>
  \<^verbatim>\<open>uploadFileToFirebase(file, folder)\<close>: the promise rejects with the TypeError of
  \<^verbatim>\<open>file.originalname\<close> when the array of the field was empty.
\<close>

definition uploadFileToFirebase ::
    "env \<Rightarrow> upload option \<Rightarrow> string \<Rightarrow> string set \<Rightarrow> (error + string) \<times> string set" where
  "uploadFileToFirebase e file folder blobs =
     (case file of
        None \<Rightarrow> (Inl TypeError, blobs)
      | Some f \<Rightarrow>
          let key = folder @ ''/'' @ trim (sanitize (originalname f))
          in (Inr (signed_url e key), insert key blobs))"

text \<open>
  A slot of the update: the field is in \<^verbatim>\<open>req.files\<close> and the book has a URL in the
  slot. It gives the key of the previous blob and the file to upload.
\<close>

definition slot :: "(string \<rightharpoonup> upload list) \<Rightarrow> string \<Rightarrow> string \<Rightarrow> string \<Rightarrow> (string \<times> upload option) option" where
  "slot m field folder url =
     (case m field of
        None \<Rightarrow> None
      | Some fs \<Rightarrow>
          if url = [] then None
          else Some (folder @ ''/'' @ url_file_name url, (case fs of [] \<Rightarrow> None | f # _ \<Rightarrow> Some f)))"

text \<open>
  The deletions of \<^verbatim>\<open>deletePromises\<close> have all been started when they are awaited:
  each of them runs, and \<^verbatim>\<open>Promise.all\<close> reports a failure.
\<close>

fun delete_all :: "string list \<Rightarrow> string set \<Rightarrow> error option \<times> string set" where
  "delete_all [] blobs = (None, blobs)"
| "delete_all (k # ks) blobs =
     (case bucket_delete k blobs of
        Inl e \<Rightarrow> (Some e, snd (delete_all ks blobs))
      | Inr blobs' \<Rightarrow> delete_all ks blobs')"

text \<open>An upload of a slot: the new URL of the slot, or the error, and the bucket.\<close>

definition upload_slot ::
    "env \<Rightarrow> (string \<times> upload option) option \<Rightarrow> string \<Rightarrow> string set
      \<Rightarrow> error option \<times> string option \<times> string set" where
  "upload_slot e sl folder blobs =
     (case sl of
        None \<Rightarrow> (None, None, blobs)
      | Some (_, file) \<Rightarrow>
          (case uploadFileToFirebase e file folder blobs of
             (Inl err, blobs') \<Rightarrow> (Some err, None, blobs')
           | (Inr url, blobs') \<Rightarrow> (None, Some url, blobs')))"

fun first_error :: "error option list \<Rightarrow> error option" where
  "first_error [] = None"
| "first_error (None # es) = first_error es"
| "first_error (Some e # es) = Some e"

fun set_opt :: "'a option \<Rightarrow> 'a \<Rightarrow> 'a" where
  "set_opt None old = old"
| "set_opt (Some v) old = v"

definition updateBookById :: "env \<Rightarrow> store \<Rightarrow> oid \<Rightarrow> update_book_req \<Rightarrow> book response \<times> store" where
  "updateBookById e s i r =
     (case find (\<lambda>b. b_id b = i) (books s) of
        None \<Rightarrow> (ErrorJson 404 ''Book not found'', s)
      | Some bk \<Rightarrow>
          if given (ub_authorName r) \<noteq> None \<and>
             find (\<lambda>a. Some (a_name a) = ub_authorName r) (authors s) = None
          then (ErrorJson 404 ''Author not found'', s)
          else
            let originalPrice = update_originalPrice bk (ub_price r);
                discountedPrice = update_discountedPrice bk (ub_price r) (ub_discountPercentage r);
                m = (case ub_files r of None \<Rightarrow> Map.empty | Some fm \<Rightarrow> fm);
                fileSlot = slot m ''file'' ''books'' (b_sourcePath bk);
                coverSlot = slot m ''cover'' ''covers'' (b_coverImage bk);
                sampleSlot = slot m ''sample'' ''samples'' (b_samplePdf bk);
                olds = map fst (List.map_filter id [fileSlot, coverSlot, sampleSlot]);
                (delErr, blobs1) = delete_all olds (bucket s);
                (err1, sourceUrl, blobs2) = upload_slot e fileSlot ''books'' blobs1;
                (err2, coverUrl, blobs3) = upload_slot e coverSlot ''covers'' blobs2;
                (err3, sampleUrl, blobs4) = upload_slot e sampleSlot ''samples'' blobs3
            in (case first_error [delErr, err1, err2, err3] of
                  Some err \<Rightarrow>
                    (Next (AppError ''Failed to update book: '' err 500), s\<lparr>bucket := blobs4\<rparr>)
                | None \<Rightarrow>
                    let bk' = bk\<lparr> b_title := set_opt (ub_title r) (b_title bk),
                                 b_description := set_opt (ub_description r) (b_description bk),
                                 b_price := set_opt (ub_price r) (b_price bk),
                                 b_category := set_opt (ub_category r) (b_category bk),
                                 b_author := set_opt (given (ub_authorName r)) (b_author bk),
                                 b_discountPercentage :=
                                   set_opt (ub_discountPercentage r) (b_discountPercentage bk),
                                 b_sourcePath := set_opt sourceUrl (b_sourcePath bk),
                                 b_coverImage := set_opt coverUrl (b_coverImage bk),
                                 b_samplePdf := set_opt sampleUrl (b_samplePdf bk),
                                 b_originalPrice := originalPrice,
                                 b_discountedPrice := Num discountedPrice \<rparr>
                    in (Json 200 bk', s\<lparr>bucket := blobs4, books := save_book bk' (books s)\<rparr>)))"

subsection \<open>updateAuthor\<close>

record update_author_req =
  ua_name :: "string option"
  ua_files :: files

text \<open>The image of the request: \<^verbatim>\<open>req.files && req.files['file']\<close>, then its first file.\<close>

definition image_file :: "files \<Rightarrow> upload option" where
  "image_file fs =
     (case fs of
        None \<Rightarrow> None
      | Some m \<Rightarrow> (case m ''file'' of None \<Rightarrow> None | Some [] \<Rightarrow> None | Some (f # _) \<Rightarrow> Some f))"

definition updateAuthor :: "env \<Rightarrow> store \<Rightarrow> oid \<Rightarrow> update_author_req \<Rightarrow> author response \<times> store" where
  "updateAuthor e s i r =
     (case find (\<lambda>a. a_id a = i) (authors s) of
        None \<Rightarrow> (ErrorJson 404 ''Author not found'', s)
      | Some authorData \<Rightarrow>
          (case image_file (ua_files r) of
             None \<Rightarrow>
               let a' = authorData\<lparr>a_name := set_opt (ua_name r) (a_name authorData)\<rparr>
               in (Json 200 a', s\<lparr>authors := save_author a' (authors s)\<rparr>)
           | Some imageFile \<Rightarrow>
               (case (case given (a_image authorData) of
                        None \<Rightarrow> Inr (bucket s)
                      | Some url \<Rightarrow> bucket_delete (''authors/'' @ url_file_name url) (bucket s)) of
                  Inl err \<Rightarrow> (Next (AppError ''Failed to update author'' err 500), s)
                | Inr blobs \<Rightarrow>
                    let key = ''authors/'' @ sanitize (originalname imageFile);
                        a' = authorData\<lparr> a_name := set_opt (ua_name r) (a_name authorData),
                                         a_image := Some (signed_url e key) \<rparr>
                    in (Json 200 a',
                        s\<lparr>bucket := insert key blobs, authors := save_author a' (authors s)\<rparr>))))"

subsection \<open>The references between books, authors and categories\<close>

text \<open>
  The back-references of an author are the books that carry the author's name, and the
  books of a category are the books that carry its title.
\<close>

definition author_refs_ok :: "store \<Rightarrow> bool" where
  "author_refs_ok s \<longleftrightarrow>
     list_all (\<lambda>a. set (a_books a) = set (map b_id (books_of (a_name a) s))) (authors s)"

definition category_refs_ok :: "store \<Rightarrow> bool" where
  "category_refs_ok s \<longleftrightarrow>
     list_all (\<lambda>c. set (c_books c) = set (map b_id (filter (\<lambda>b. b_category b = c_title c) (books s))))
       (categories s)"

subsection \<open>A small catalogue\<close>

text \<open>
  Two books of one author in one category, as the query scenario of the specification
  has them: A costs 10 with no discount, B costs 20 with a discount of 50 percent.
\<close>

definition ex_env :: env where
  "ex_env = \<lparr> signed_url = (\<lambda>k. ''u/'' @ k @ ''?k''), new_id = 3, now = 9 \<rparr>"

definition book_A :: book where
  "book_A = \<lparr> b_id = 1, b_title = ''A'', b_description = ''first'', b_price = 10,
     b_discountPercentage = 0, b_originalPrice = 10, b_discountedPrice = Num 10,
     b_category = ''Fiction'', b_author = ''Ann'', b_sourcePath = ''u/books/a?k'',
     b_coverImage = ''u/covers/a?k'', b_samplePdf = ''u/samples/a?k'', b_createdAt = 1 \<rparr>"

definition book_B :: book where
  "book_B = \<lparr> b_id = 2, b_title = ''B'', b_description = ''second'', b_price = 20,
     b_discountPercentage = 50, b_originalPrice = 20, b_discountedPrice = Num 10,
     b_category = ''Fiction'', b_author = ''Ann'', b_sourcePath = ''u/books/b?k'',
     b_coverImage = ''u/covers/b?k'', b_samplePdf = ''u/samples/b?k'', b_createdAt = 2 \<rparr>"

definition ex_store :: store where
  "ex_store = \<lparr>
     books = [book_A, book_B],
     authors = [\<lparr>a_id = 10, a_name = ''Ann'', a_image = None, a_books = [1, 2]\<rparr>,
                \<lparr>a_id = 11, a_name = ''Bob'', a_image = None, a_books = []\<rparr>],
     categories = [\<lparr>c_id = 20, c_title = ''Fiction'', c_books = [1, 2]\<rparr>],
     carts = [\<lparr>cart_id = 30, cart_items = [1, 2, 1]\<rparr>],
     favoritesC = [\<lparr>fav_id = 40, fav_books = [2, 1]\<rparr>],
     orders = [\<lparr>o_id = 50, o_userId = 60, o_books = [1]\<rparr>],
     bucket = {''books/a'', ''covers/a'', ''samples/a'', ''books/b'', ''covers/b'', ''samples/b''} \<rparr>"

definition ex_upload :: "string \<Rightarrow> upload" where
  "ex_upload n = \<lparr> originalname = n \<rparr>"

definition ex_create :: create_book_req where
  "ex_create = \<lparr> cb_title = ''C'', cb_description = ''third'', cb_price = 10,
     cb_category = ''Fiction'', cb_authorName = ''Bob'', cb_discountPercentage = None,
     cb_files = Some [''file'' \<mapsto> [ex_upload ''c 1''], ''cover'' \<mapsto> [ex_upload ''c2''],
                      ''sample'' \<mapsto> [ex_upload ''c3'']] \<rparr>"

definition ex_update :: update_book_req where
  "ex_update = \<lparr> ub_title = None, ub_description = None, ub_price = None, ub_category = None,
     ub_authorName = None, ub_discountPercentage = None, ub_files = None \<rparr>"

definition ex_query :: query where
  "ex_query = \<lparr> q_author = None, q_category = None, q_minPrice = None, q_maxPrice = None,
     q_search = None, q_sortBy = None, q_page = None, q_limit = None \<rparr>"

text \<open>
  The catalogue after a blob was lost: the sample of A, the source of B; and a catalogue
  in which B was uploaded with the cover file of A, so that both books name the blob
  \<^verbatim>\<open>covers/a\<close>.
\<close>

definition ex_store_lost_sample :: store where
  "ex_store_lost_sample = ex_store\<lparr>bucket := bucket ex_store - {''samples/a''}\<rparr>"

definition ex_store_lost_source :: store where
  "ex_store_lost_source = ex_store\<lparr>bucket := bucket ex_store - {''books/b''}\<rparr>"

definition ex_store_shared_cover :: store where
  "ex_store_shared_cover =
     ex_store\<lparr>books := [book_A, book_B\<lparr>b_coverImage := ''u/covers/a?k''\<rparr>],
                bucket := bucket ex_store - {''covers/b''}\<rparr>"


text \<open>
  A catalogue whose only book has an identifier that prints with a letter, in an order
  of requester 60.
\<close>

definition book_hex :: book where
  "book_hex = book_A\<lparr>b_id := 10\<rparr>"

definition ex_store_hex :: store where
  "ex_store_hex = ex_store\<lparr>books := [book_hex],
     orders := [\<lparr>o_id = 50, o_userId = 60, o_books = [10]\<rparr>]\<rparr>"




section \<open>Properties\<close>

subsection \<open>Evaluating the catalogue\<close>

lemmas ex_defs = ex_store_def book_A_def book_B_def ex_env_def ex_create_def ex_update_def
  ex_query_def ex_upload_def ex_store_lost_sample_def ex_store_lost_source_def
  ex_store_shared_cover_def

lemmas unlink_defs = unlink_book_def unlink_lists_def unlink_author_def unlink_category_def
  save_category_def save_author_def pull_carts_def pull_favorites_def pull_orders_def pull_def

lemmas key_defs = book_keys_def url_file_name_def trim_def is_space_def bucket_delete_def

lemma keys_A: "book_keys book_A = [''books/a'', ''covers/a'', ''samples/a'']"
  by (simp add: book_keys_def url_file_name_def trim_def is_space_def book_A_def)

lemma keys_B: "book_keys book_B = [''books/b'', ''covers/b'', ''samples/b'']"
  by (simp add: book_keys_def url_file_name_def trim_def is_space_def book_B_def)



lemma hex_string_10: "hex_string 10 = ''00000000000000000000000a''"
  unfolding hex_string_def by code_simp

lemma hex_cast_lower: "hex_cast ''00000000000000000000000a'' = Some 10"
  by code_simp

lemma hex_cast_upper: "hex_cast ''00000000000000000000000A'' = Some 10"
  by code_simp

lemma hex_cast_99: "hex_cast ''000000000000000000000063'' = Some 99"
  by code_simp

lemma hex_cast_bad: "hex_cast ''xyz'' = None"
  by code_simp

lemma hex_digits_length: "length (hex_digits k n) = k"
  by (induction k arbitrary: n) simp_all

lemma hex_string_not_short: "hex_string i \<noteq> ''xyz''"
proof
  assume "hex_string i = ''xyz''"
  then have "length (hex_string i) = length ''xyz''" by simp
  then show False by (simp add: hex_string_def hex_digits_length)
qed

subsection \<open>Sale prices\<close>

text \<open>
  The sale price that createBook computes is the formula of the specification when the
  request carries a discount percent, and \<open>NaN\<close> when it carries none.
\<close>

lemma create_discountedPrice_Some: "create_discountedPrice p (Some d) = Num (derive p d)"
  by (simp add: create_discountedPrice_def derive_def algebra_simps)

lemma create_discountedPrice_None: "create_discountedPrice p None = NaN"
  by (simp add: create_discountedPrice_def)

lemma new_book_discountedPrice:
  "b_discountedPrice (new_book e r au u1 u2 u3) =
     (case cb_discountPercentage r of
        None \<Rightarrow> NaN
      | Some d \<Rightarrow> Num (derive (cb_price r) d))"
  by (simp add: new_book_def create_discountedPrice_Some create_discountedPrice_None
      split: option.splits)

text \<open>
  C1. A book created with list price 10 and no discount percent in the request: the
  stored discount percent is the default 0, but the stored sale price is \<open>NaN\<close>, the
  value of \<^verbatim>\<open>price - price * (undefined / 100)\<close>, and not 10, the value of the
  formula at discount 0. The two books that were there are unchanged.
\<close>

theorem createBook_without_discount:
  "(case fst (createBook ex_env ex_store ex_create) of
      Json code (bk, name) \<Rightarrow>
        code = 201 \<and> b_price bk = 10 \<and> b_discountPercentage bk = 0 \<and> b_discountedPrice bk = NaN
    | _ \<Rightarrow> False) \<and>
   map (\<lambda>b. (b_id b, b_price b, b_discountPercentage b, b_discountedPrice b))
     (books (snd (createBook ex_env ex_store ex_create))) =
     [(1, 10, 0, Num 10), (2, 20, 50, Num 10), (3, 10, 0, NaN)] \<and>
   Num (derive 10 0) = Num 10"
  by (simp add: createBook_def first_file_def new_book_def create_discountedPrice_def
      derive_def Let_def ex_defs)

text \<open>
  The sale price that updateBookById computes: the formula on the supplied list price
  and the stored discount percent; the formula on the stored list price and the supplied
  discount percent when that is not 0; and for a supplied discount percent of 0 the
  formula on the stored discount percent, since \<^verbatim>\<open>0 || book.discountPercentage\<close>
  is the stored one.
\<close>

lemma update_discountedPrice_price_only:
  "update_discountedPrice bk (Some p) None = derive p (b_discountPercentage bk)"
  by (simp add: update_discountedPrice_def update_originalPrice_def derive_def Let_def right_diff_distrib)

lemma update_discountedPrice_discount_only:
  "d \<noteq> 0 \<Longrightarrow> update_discountedPrice bk None (Some d) = derive (b_price bk) d"
  by (simp add: update_discountedPrice_def update_originalPrice_def derive_def Let_def right_diff_distrib)

lemma update_discountedPrice_discount_zero:
  "update_discountedPrice bk None (Some 0) = derive (b_price bk) (b_discountPercentage bk)"
  by (simp add: update_discountedPrice_def update_originalPrice_def derive_def Let_def right_diff_distrib)

text \<open>
  C2. An update of book B (list price 20, discount 50 percent, sale price 10) that
  supplies only the discount percent 0: the stored discount percent becomes 0 and the
  stored sale price stays 10, where the formula on 20 and 0 gives 20.
\<close>

theorem updateBookById_discount_zero:
  "fst (updateBookById ex_env ex_store 2 (ex_update\<lparr>ub_discountPercentage := Some 0\<rparr>)) =
     Json 200 (book_B\<lparr>b_discountPercentage := 0\<rparr>) \<and>
   map (\<lambda>b. (b_id b, b_price b, b_discountPercentage b, b_discountedPrice b))
     (books (snd (updateBookById ex_env ex_store 2 (ex_update\<lparr>ub_discountPercentage := Some 0\<rparr>)))) =
     [(1, 10, 0, Num 10), (2, 20, 0, Num 10)] \<and>
   Num (derive 20 0) = Num 20"
  by (simp add: updateBookById_def update_discountedPrice_def update_originalPrice_def
      slot_def upload_slot_def save_book_def List.map_filter_def derive_def Let_def ex_defs)

subsection \<open>Deleting blobs\<close>

lemma book_keys_distinct: "distinct (book_keys b)"
  by (simp add: book_keys_def)

lemma delete_keys_ok:
  "distinct ks \<Longrightarrow> set ks \<subseteq> blobs \<Longrightarrow> delete_keys ks blobs = (None, blobs - set ks)"
proof (induction ks arbitrary: blobs)
  case Nil
  then show ?case by simp
next
  case (Cons k ks)
  from Cons.prems have "delete_keys ks (blobs - {k}) = (None, blobs - {k} - set ks)"
    by (intro Cons.IH) auto
  moreover have "blobs - {k} - set ks = blobs - set (k # ks)" by auto
  ultimately show ?case using Cons.prems by (simp add: bucket_delete_def)
qed

lemma delete_keys_shrinks: "snd (delete_keys ks blobs) \<subseteq> blobs"
proof (induction ks arbitrary: blobs)
  case Nil
  then show ?case by simp
next
  case (Cons k ks)
  show ?case
  proof (cases "k \<in> blobs")
    case True
    with Cons.IH [of "blobs - {k}"] show ?thesis by (auto simp: bucket_delete_def)
  next
    case False
    then show ?thesis by (simp add: bucket_delete_def)
  qed
qed

lemma delete_keys_fail:
  "\<not> set ks \<subseteq> blobs \<Longrightarrow> \<exists>e. fst (delete_keys ks blobs) = Some e"
proof (induction ks arbitrary: blobs)
  case Nil
  then show ?case by simp
next
  case (Cons k ks)
  show ?case
  proof (cases "k \<in> blobs")
    case True
    with Cons.prems have "\<not> set ks \<subseteq> blobs - {k}" by auto
    from Cons.IH [OF this] True show ?thesis by (simp add: bucket_delete_def)
  next
    case False
    then show ?thesis by (simp add: bucket_delete_def)
  qed
qed

lemma delete_keys_none:
  "delete_keys ks blobs = (None, blobs') \<Longrightarrow>
   distinct ks \<and> set ks \<subseteq> blobs \<and> blobs' = blobs - set ks"
proof (induction ks arbitrary: blobs)
  case Nil
  then show ?case by simp
next
  case (Cons k ks)
  show ?case
  proof (cases "k \<in> blobs")
    case True
    with Cons.prems have "delete_keys ks (blobs - {k}) = (None, blobs')"
      by (simp add: bucket_delete_def)
    from Cons.IH [OF this] True show ?thesis by auto
  next
    case False
    with Cons.prems show ?thesis by (simp add: bucket_delete_def)
  qed
qed

lemma delete_keys_abort:
  "delete_keys ks blobs = (Some e, blobs') \<Longrightarrow>
   \<exists>ks1 k ks2. ks = ks1 @ k # ks2 \<and> distinct ks1 \<and> set ks1 \<subseteq> blobs \<and>
     (k \<notin> blobs \<or> k \<in> set ks1) \<and> e = StorageDeleteError k \<and> blobs' = blobs - set ks1"
proof (induction ks arbitrary: blobs)
  case Nil
  then show ?case by simp
next
  case (Cons k0 ks)
  show ?case
  proof (cases "k0 \<in> blobs")
    case False
    with Cons.prems have "e = StorageDeleteError k0" "blobs' = blobs"
      by (simp_all add: bucket_delete_def)
    with False have "k0 # ks = [] @ k0 # ks \<and> distinct [] \<and> set [] \<subseteq> blobs \<and>
        (k0 \<notin> blobs \<or> k0 \<in> set []) \<and> e = StorageDeleteError k0 \<and> blobs' = blobs - set []"
      by simp
    then show ?thesis by blast
  next
    case True
    with Cons.prems have "delete_keys ks (blobs - {k0}) = (Some e, blobs')"
      by (simp add: bucket_delete_def)
    from Cons.IH [OF this] obtain ks1 k ks2 where
      d: "ks = ks1 @ k # ks2" "distinct ks1" "set ks1 \<subseteq> blobs - {k0}"
        "k \<notin> blobs - {k0} \<or> k \<in> set ks1" "e = StorageDeleteError k"
        "blobs' = blobs - {k0} - set ks1"
      by blast
    from d True have "k0 # ks = (k0 # ks1) @ k # ks2 \<and> distinct (k0 # ks1) \<and>
        set (k0 # ks1) \<subseteq> blobs \<and> (k \<notin> blobs \<or> k \<in> set (k0 # ks1)) \<and>
        e = StorageDeleteError k \<and> blobs' = blobs - set (k0 # ks1)"
      by auto
    then show ?thesis by blast
  qed
qed

subsection \<open>Deleting a book\<close>

lemma find_id_eq: "find (\<lambda>b. b_id b = i) bs = Some bk \<Longrightarrow> b_id bk = i"
  by (auto simp: find_Some_iff)

lemma unlink_book_frame [simp]:
  "bucket (unlink_book bk s) = bucket s"
  "books (unlink_book bk s) = books s"
  "carts (unlink_book bk s) = pull_carts (b_id bk) (carts s)"
  "favoritesC (unlink_book bk s) = pull_favorites (b_id bk) (favoritesC s)"
  "orders (unlink_book bk s) = pull_orders (b_id bk) (orders s)"
  by (simp_all add: unlink_book_def unlink_lists_def unlink_author_def unlink_category_def
      split: option.splits)

lemma unlink_book_categories:
  "categories (unlink_book bk s) =
     (case find (\<lambda>c. c_title c = b_category bk) (categories s) of
        None \<Rightarrow> categories s
      | Some c \<Rightarrow> save_category (c\<lparr>c_books := filter (\<lambda>b. b \<noteq> b_id bk) (c_books c)\<rparr>) (categories s))"
  by (simp add: unlink_book_def unlink_lists_def unlink_author_def unlink_category_def
      split: option.splits)

lemma unlink_book_authors:
  "authors (unlink_book bk s) =
     (case find (\<lambda>a. a_name a = b_author bk) (authors s) of
        None \<Rightarrow> authors s
      | Some a \<Rightarrow> save_author (a\<lparr>a_books := filter (\<lambda>b. b \<noteq> b_id bk) (a_books a)\<rparr>) (authors s))"
  by (simp add: unlink_book_def unlink_lists_def unlink_author_def unlink_category_def
      split: option.splits)

lemma find_save_category:
  "find P cs = Some c \<Longrightarrow> P c' \<Longrightarrow> c_id c' = c_id c \<Longrightarrow> find P (save_category c' cs) = Some c'"
  by (induction cs) (auto simp: save_category_def split: if_splits)

lemma find_save_author:
  "find P cs = Some c \<Longrightarrow> P c' \<Longrightarrow> a_id c' = a_id c \<Longrightarrow> find P (save_author c' cs) = Some c'"
  by (induction cs) (auto simp: save_author_def split: if_splits)

lemma unlinked_category:
  "find (\<lambda>c. c_title c = b_category bk) (categories (unlink_book bk s)) =
     map_option (\<lambda>c. c\<lparr>c_books := filter (\<lambda>b. b \<noteq> b_id bk) (c_books c)\<rparr>)
       (find (\<lambda>c. c_title c = b_category bk) (categories s))"
proof (cases "find (\<lambda>c. c_title c = b_category bk) (categories s)")
  case None
  then show ?thesis by (simp add: unlink_book_categories)
next
  case (Some c)
  then have "c_title c = b_category bk" by (auto simp: find_Some_iff)
  with Some show ?thesis by (simp add: unlink_book_categories find_save_category)
qed

lemma unlinked_author:
  "find (\<lambda>a. a_name a = b_author bk) (authors (unlink_book bk s)) =
     map_option (\<lambda>a. a\<lparr>a_books := filter (\<lambda>b. b \<noteq> b_id bk) (a_books a)\<rparr>)
       (find (\<lambda>a. a_name a = b_author bk) (authors s))"
proof (cases "find (\<lambda>a. a_name a = b_author bk) (authors s)")
  case None
  then show ?thesis by (simp add: unlink_book_authors)
next
  case (Some a)
  then have "a_name a = b_author bk" by (auto simp: find_Some_iff)
  with Some show ?thesis by (simp add: unlink_book_authors find_save_author)
qed

lemma pulled_carts: "c \<in> set (pull_carts i cs) \<Longrightarrow> i \<notin> set (cart_items c)"
  by (auto simp: pull_carts_def pull_def split: if_splits)

lemma pulled_favorites: "f \<in> set (pull_favorites i fs) \<Longrightarrow> i \<notin> set (fav_books f)"
  by (auto simp: pull_favorites_def pull_def split: if_splits)

lemma pulled_orders: "x \<in> set (pull_orders i os) \<Longrightarrow> i \<notin> set (o_books x)"
  by (auto simp: pull_orders_def pull_def split: if_splits)

lemma find_delete_book: "find (\<lambda>b. b_id b = i) (delete_book i bs) = None"
  by (auto simp: delete_book_def find_None_iff)

text \<open>
  C3, as stated, fails: in the catalogue that lost the sample of A, book A exists and
  deleteBookById answers with the error of the storage; the record of A is still there
  afterwards.
\<close>

theorem deleteBookById_lost_sample_keeps_record:
  "find (\<lambda>b. b_id b = 1) (books ex_store_lost_sample) = Some book_A \<and>
   fst (deleteBookById ex_store_lost_sample 1) =
     Next (AppError ''Failed to delete book: '' (StorageDeleteError ''samples/a'') 500) \<and>
   find (\<lambda>b. b_id b = 1) (books (snd (deleteBookById ex_store_lost_sample 1))) = Some book_A"
  by (simp add: deleteBookById_def unlink_defs key_defs ex_defs)

text \<open>
  C3, amended. For every existing book whose three blobs (the keys read from its source,
  cover and sample URLs) are in the bucket, deleteBookById acknowledges the deletion, and
  afterwards the category found by the book's category title and the author found by the
  book's author name have lost the book's id from their lists, no cart, favorites list or
  order has a line item of the book, the three blobs are gone from the bucket and nothing
  else is, and no book has the id.
\<close>

theorem deleteBookById_cascade:
  assumes "find (\<lambda>b. b_id b = i) (books s) = Some bk"
    and "set (book_keys bk) \<subseteq> bucket s"
  shows "\<exists>s'. deleteBookById s i = (Json 200 ''Book and related data deleted'', s') \<and>
    find (\<lambda>c. c_title c = b_category bk) (categories s') =
      map_option (\<lambda>c. c\<lparr>c_books := filter (\<lambda>b. b \<noteq> i) (c_books c)\<rparr>)
        (find (\<lambda>c. c_title c = b_category bk) (categories s)) \<and>
    find (\<lambda>a. a_name a = b_author bk) (authors s') =
      map_option (\<lambda>a. a\<lparr>a_books := filter (\<lambda>b. b \<noteq> i) (a_books a)\<rparr>)
        (find (\<lambda>a. a_name a = b_author bk) (authors s)) \<and>
    (\<forall>c\<in>set (carts s'). i \<notin> set (cart_items c)) \<and>
    (\<forall>f\<in>set (favoritesC s'). i \<notin> set (fav_books f)) \<and>
    (\<forall>x\<in>set (orders s'). i \<notin> set (o_books x)) \<and>
    bucket s' = bucket s - set (book_keys bk) \<and>
    find (\<lambda>b. b_id b = i) (books s') = None"
proof -
  have i: "b_id bk = i" using assms(1) by (rule find_id_eq)
  have keys: "delete_keys (book_keys bk) (bucket (unlink_book bk s)) =
      (None, bucket s - set (book_keys bk))"
    using assms(2) by (simp add: delete_keys_ok book_keys_distinct)
  define s' where "s' = (unlink_book bk s)\<lparr>bucket := bucket s - set (book_keys bk),
      books := delete_book (b_id bk) (books s)\<rparr>"
  have run: "deleteBookById s i = (Json 200 ''Book and related data deleted'', s')"
    using assms(1) keys by (simp add: deleteBookById_def s'_def)
  have cat: "categories s' = categories (unlink_book bk s)"
    and au: "authors s' = authors (unlink_book bk s)"
    by (simp_all add: s'_def)
  have "find (\<lambda>c. c_title c = b_category bk) (categories s') =
      map_option (\<lambda>c. c\<lparr>c_books := filter (\<lambda>b. b \<noteq> i) (c_books c)\<rparr>)
        (find (\<lambda>c. c_title c = b_category bk) (categories s))"
    unfolding cat unlinked_category i ..
  moreover have "find (\<lambda>a. a_name a = b_author bk) (authors s') =
      map_option (\<lambda>a. a\<lparr>a_books := filter (\<lambda>b. b \<noteq> i) (a_books a)\<rparr>)
        (find (\<lambda>a. a_name a = b_author bk) (authors s))"
    unfolding au unlinked_author i ..
  moreover have "\<forall>c\<in>set (carts s'). i \<notin> set (cart_items c)"
    using i by (auto simp: s'_def dest: pulled_carts)
  moreover have "\<forall>f\<in>set (favoritesC s'). i \<notin> set (fav_books f)"
    using i by (auto simp: s'_def dest: pulled_favorites)
  moreover have "\<forall>x\<in>set (orders s'). i \<notin> set (o_books x)"
    using i by (auto simp: s'_def dest: pulled_orders)
  moreover have "bucket s' = bucket s - set (book_keys bk)"
    by (simp add: s'_def)
  moreover have "find (\<lambda>b. b_id b = i) (books s') = None"
    using i by (simp add: s'_def find_delete_book)
  ultimately show ?thesis using run by blast
qed

text \<open>
  The amended C3 on book A of the catalogue.
\<close>

theorem deleteBookById_cascade_witness:
  "find (\<lambda>b. b_id b = 1) (books ex_store) = Some book_A \<and>
   set (book_keys book_A) \<subseteq> bucket ex_store \<and>
   (\<exists>s'. deleteBookById ex_store 1 = (Json 200 ''Book and related data deleted'', s') \<and>
      find (\<lambda>c. c_title c = ''Fiction'') (categories s') =
        Some \<lparr>c_id = 20, c_title = ''Fiction'', c_books = [2]\<rparr> \<and>
      find (\<lambda>a. a_name a = ''Ann'') (authors s') =
        Some \<lparr>a_id = 10, a_name = ''Ann'', a_image = None, a_books = [2]\<rparr> \<and>
      (\<forall>c\<in>set (carts s'). 1 \<notin> set (cart_items c)) \<and>
      (\<forall>f\<in>set (favoritesC s'). 1 \<notin> set (fav_books f)) \<and>
      (\<forall>x\<in>set (orders s'). 1 \<notin> set (o_books x)) \<and>
      bucket s' = {''books/b'', ''covers/b'', ''samples/b''} \<and>
      find (\<lambda>b. b_id b = 1) (books s') = None)"
proof -
  have h1: "find (\<lambda>b. b_id b = 1) (books ex_store) = Some book_A"
    by (simp add: ex_defs)
  have h2: "set (book_keys book_A) \<subseteq> bucket ex_store"
    by (simp add: keys_A) (simp add: ex_defs)
  have blobs: "bucket ex_store - set (book_keys book_A) = {''books/b'', ''covers/b'', ''samples/b''}"
    by (simp add: keys_A) (auto simp: ex_defs)
  have c: "find (\<lambda>c. c_title c = ''Fiction'') (categories ex_store) =
      Some \<lparr>c_id = 20, c_title = ''Fiction'', c_books = [1, 2]\<rparr>"
    and a: "find (\<lambda>a. a_name a = ''Ann'') (authors ex_store) =
      Some \<lparr>a_id = 10, a_name = ''Ann'', a_image = None, a_books = [1, 2]\<rparr>"
    and f: "b_category book_A = ''Fiction''" "b_author book_A = ''Ann''"
    by (simp_all add: ex_defs)
  from deleteBookById_cascade [OF h1 h2] h1 h2 show ?thesis
    by (simp add: blobs c a f)
qed

subsection \<open>Deleting an author\<close>

lemma delete_books_loop_ok:
  "distinct (concat (map book_keys bs)) \<Longrightarrow> set (concat (map book_keys bs)) \<subseteq> bucket s \<Longrightarrow>
   delete_books_loop bs s =
     (None, s\<lparr>bucket := bucket s - set (concat (map book_keys bs)),
              books := filter (\<lambda>x. b_id x \<notin> b_id ` set bs) (books s)\<rparr>)"
proof (induction bs arbitrary: s)
  case Nil
  then show ?case by simp
next
  case (Cons b bs)
  let ?s1 = "s\<lparr>bucket := bucket s - set (book_keys b), books := delete_book (b_id b) (books s)\<rparr>"
  from Cons.prems have head: "delete_keys (book_keys b) (bucket s) = (None, bucket s - set (book_keys b))"
    by (intro delete_keys_ok) auto
  from Cons.prems have d: "distinct (concat (map book_keys bs))"
    and sub: "set (concat (map book_keys bs)) \<subseteq> bucket ?s1"
    by auto
  have blobs: "bucket s - set (book_keys b) - set (concat (map book_keys bs)) =
      bucket s - set (concat (map book_keys (b # bs)))"
    by auto
  have recs: "filter (\<lambda>x. b_id x \<notin> b_id ` set bs) (delete_book (b_id b) (books s)) =
      filter (\<lambda>x. b_id x \<notin> b_id ` set (b # bs)) (books s)"
    by (auto simp: delete_book_def intro: filter_cong)
  show ?case
    using Cons.IH [OF d sub] head blobs recs by simp
qed

lemma delete_books_loop_fail:
  "\<exists>b\<in>set bs. \<not> set (book_keys b) \<subseteq> bucket s \<Longrightarrow>
   \<exists>e s'. delete_books_loop bs s = (Some e, s') \<and> authors s' = authors s"
proof (induction bs arbitrary: s)
  case Nil
  then show ?case by simp
next
  case (Cons b bs)
  obtain r blobs where run: "delete_keys (book_keys b) (bucket s) = (r, blobs)"
    by (cases "delete_keys (book_keys b) (bucket s)")
  show ?case
  proof (cases r)
    case (Some e)
    with run show ?thesis by simp
  next
    case None
    let ?s1 = "s\<lparr>bucket := blobs, books := delete_book (b_id b) (books s)\<rparr>"
    from run None have ok: "set (book_keys b) \<subseteq> bucket s"
      using delete_keys_fail [of "book_keys b" "bucket s"] by auto
    from run have "blobs \<subseteq> bucket s"
      using delete_keys_shrinks [of "book_keys b" "bucket s"] by simp
    with Cons.prems ok have "\<exists>x\<in>set bs. \<not> set (book_keys x) \<subseteq> bucket ?s1"
      by auto
    from Cons.IH [OF this] run None show ?thesis by simp
  qed
qed

lemma delete_books_loop_none:
  "delete_books_loop bs s = (None, s') \<Longrightarrow>
   distinct (concat (map book_keys bs)) \<and> set (concat (map book_keys bs)) \<subseteq> bucket s"
proof (induction bs arbitrary: s)
  case Nil
  then show ?case by simp
next
  case (Cons b bs)
  obtain r blobs where run: "delete_keys (book_keys b) (bucket s) = (r, blobs)"
    by (cases "delete_keys (book_keys b) (bucket s)")
  show ?case
  proof (cases r)
    case (Some e)
    with run Cons.prems show ?thesis by simp
  next
    case None
    with run have head: "distinct (book_keys b)" "set (book_keys b) \<subseteq> bucket s"
      "blobs = bucket s - set (book_keys b)"
      using delete_keys_none [of "book_keys b" "bucket s" blobs] by simp_all
    let ?s1 = "s\<lparr>bucket := blobs, books := delete_book (b_id b) (books s)\<rparr>"
    from run None Cons.prems have "delete_books_loop bs ?s1 = (None, s')" by simp
    from Cons.IH [OF this] have "distinct (concat (map book_keys bs))"
      "set (concat (map book_keys bs)) \<subseteq> blobs"
      by simp_all
    with head show ?thesis by auto
  qed
qed

lemma delete_books_loop_abort:
  "delete_books_loop bs s = (Some e, s') \<Longrightarrow>
   \<exists>bs1 b bs2 ks1 k ks2.
     bs = bs1 @ b # bs2 \<and> book_keys b = ks1 @ k # ks2 \<and>
     distinct (concat (map book_keys bs1) @ ks1) \<and>
     set (concat (map book_keys bs1) @ ks1) \<subseteq> bucket s \<and>
     (k \<notin> bucket s \<or> k \<in> set (concat (map book_keys bs1) @ ks1)) \<and>
     e = StorageDeleteError k \<and>
     s' = s\<lparr>bucket := bucket s - set (concat (map book_keys bs1) @ ks1),
             books := filter (\<lambda>x. b_id x \<notin> b_id ` set bs1) (books s)\<rparr>"
proof (induction bs arbitrary: s)
  case Nil
  then show ?case by simp
next
  case (Cons b0 bs)
  obtain r blobs where run: "delete_keys (book_keys b0) (bucket s) = (r, blobs)"
    by (cases "delete_keys (book_keys b0) (bucket s)")
  show ?case
  proof (cases r)
    case (Some e0)
    with run Cons.prems have e: "e0 = e" and s': "s' = s\<lparr>bucket := blobs\<rparr>" by simp_all
    from run Some e obtain ks1 k ks2 where
      d: "book_keys b0 = ks1 @ k # ks2" "distinct ks1" "set ks1 \<subseteq> bucket s"
        "k \<notin> bucket s \<or> k \<in> set ks1" "e = StorageDeleteError k" "blobs = bucket s - set ks1"
      using delete_keys_abort [of "book_keys b0" "bucket s" e blobs] by blast
    have "s' = s\<lparr>bucket := bucket s - set (concat (map book_keys []) @ ks1),
             books := filter (\<lambda>x. b_id x \<notin> b_id ` set []) (books s)\<rparr>"
      using s' d(6) by simp
    with d have "b0 # bs = [] @ b0 # bs \<and> book_keys b0 = ks1 @ k # ks2 \<and>
        distinct (concat (map book_keys []) @ ks1) \<and>
        set (concat (map book_keys []) @ ks1) \<subseteq> bucket s \<and>
        (k \<notin> bucket s \<or> k \<in> set (concat (map book_keys []) @ ks1)) \<and>
        e = StorageDeleteError k \<and>
        s' = s\<lparr>bucket := bucket s - set (concat (map book_keys []) @ ks1),
             books := filter (\<lambda>x. b_id x \<notin> b_id ` set []) (books s)\<rparr>"
      by simp
    then show ?thesis by blast
  next
    case None
    with run have head: "distinct (book_keys b0)" "set (book_keys b0) \<subseteq> bucket s"
      "blobs = bucket s - set (book_keys b0)"
      using delete_keys_none [of "book_keys b0" "bucket s" blobs] by simp_all
    let ?s1 = "s\<lparr>bucket := blobs, books := delete_book (b_id b0) (books s)\<rparr>"
    from run None Cons.prems have "delete_books_loop bs ?s1 = (Some e, s')" by simp
    from Cons.IH [OF this] obtain bs1 b bs2 ks1 k ks2 where
      d: "bs = bs1 @ b # bs2" "book_keys b = ks1 @ k # ks2"
        "distinct (concat (map book_keys bs1) @ ks1)"
        "set (concat (map book_keys bs1) @ ks1) \<subseteq> bucket ?s1"
        "k \<notin> bucket ?s1 \<or> k \<in> set (concat (map book_keys bs1) @ ks1)"
        "e = StorageDeleteError k"
        "s' = ?s1\<lparr>bucket := bucket ?s1 - set (concat (map book_keys bs1) @ ks1),
             books := filter (\<lambda>x. b_id x \<notin> b_id ` set bs1) (books ?s1)\<rparr>"
      by blast
    have 1: "b0 # bs = (b0 # bs1) @ b # bs2" using d(1) by simp
    have 2: "distinct (concat (map book_keys (b0 # bs1)) @ ks1)"
      using d(3,4) head by auto
    have 3: "set (concat (map book_keys (b0 # bs1)) @ ks1) \<subseteq> bucket s"
      using d(4) head by auto
    have 4: "k \<notin> bucket s \<or> k \<in> set (concat (map book_keys (b0 # bs1)) @ ks1)"
      using d(5) head by auto
    have blobs: "bucket ?s1 - set (concat (map book_keys bs1) @ ks1) =
        bucket s - set (concat (map book_keys (b0 # bs1)) @ ks1)"
      using head(3) by auto
    have recs: "filter (\<lambda>x. b_id x \<notin> b_id ` set bs1) (books ?s1) =
        filter (\<lambda>x. b_id x \<notin> b_id ` set (b0 # bs1)) (books s)"
      by (auto simp: delete_book_def intro: filter_cong)
    have 5: "s' = s\<lparr>bucket := bucket s - set (concat (map book_keys (b0 # bs1)) @ ks1),
             books := filter (\<lambda>x. b_id x \<notin> b_id ` set (b0 # bs1)) (books s)\<rparr>"
      unfolding d(7) blobs recs by simp
    from 1 d(2) 2 3 4 d(6) 5 show ?thesis by blast
  qed
qed


lemma mset_insert_by: "mset (insert_by le x xs) = add_mset x (mset xs)"
  by (induction xs) auto

lemma mset_sort_by: "mset (sort_by le xs) = mset xs"
  by (induction xs) (simp_all add: sort_by_def mset_insert_by)

lemma set_sort_by: "set (sort_by le xs) = set xs"
  using mset_sort_by [of le xs] by (metis set_mset_mset)

lemma set_apply_sort: "set (apply_sort sp bs) = set bs"
  by (cases "(sp, bs)" rule: apply_sort.cases) (simp_all add: set_sort_by)

lemma page_books_subset: "set (page_books rx s q) \<subseteq> set (filter (matches rx q) (books s))"
proof -
  have "set (page_books rx s q) \<subseteq> set (find_sorted rx s q)"
    by (auto simp: page_books_def Let_def dest: in_set_takeD in_set_dropD)
  then show ?thesis by (simp add: find_sorted_def set_apply_sort)
qed

text \<open>
  C4, as stated, fails: in the catalogue where A and B share the cover blob, every blob
  that the books of Ann name is in the bucket, yet deleteAuthor answers with the error of
  the storage, because the cover was deleted with A; Ann is still among the authors and
  B among the books.
\<close>

theorem deleteAuthor_shared_cover_keeps_author:
  "map a_id (authors ex_store_shared_cover) = [10, 11] \<and>
   map b_id (books_of ''Ann'' ex_store_shared_cover) = [1, 2] \<and>
   set (concat (map book_keys (books_of ''Ann'' ex_store_shared_cover))) \<subseteq> bucket ex_store_shared_cover \<and>
   fst (deleteAuthor ex_store_shared_cover 10) =
     Next (AppError ''Failed to delete author and books: '' (StorageDeleteError ''covers/a'') 500) \<and>
   map a_id (authors (snd (deleteAuthor ex_store_shared_cover 10))) = [10, 11] \<and>
   map b_id (books (snd (deleteAuthor ex_store_shared_cover 10))) = [2]"
  by (simp add: deleteAuthor_def books_of_def delete_book_def key_defs ex_defs)

text \<open>
  C4, amended. For every existing author such that the blobs named by the books with the
  author's name are in the bucket and are pairwise different, deleteAuthor acknowledges
  the deletion; the blobs of those books are gone from the bucket and nothing else is, no
  book has the id of one of them, the author's record, with its list cleared, is deleted,
  the list of all authors has no author with the id, and the list of all books and every
  page of getBooks have no book with the author's name.
\<close>

theorem deleteAuthor_cascade:
  assumes "find (\<lambda>a. a_id a = i) (authors s) = Some au"
    and "distinct (concat (map book_keys (books_of (a_name au) s)))"
    and "set (concat (map book_keys (books_of (a_name au) s))) \<subseteq> bucket s"
  shows "\<exists>s'. deleteAuthor s i = (Json 200 ''Author and their books deleted successfully'', s') \<and>
    bucket s' = bucket s - set (concat (map book_keys (books_of (a_name au) s))) \<and>
    (\<forall>b\<in>set (books_of (a_name au) s). find (\<lambda>x. b_id x = b_id b) (books s') = None) \<and>
    authors s' = delete_author i (save_author (au\<lparr>a_books := []\<rparr>) (authors s)) \<and>
    getAllAuthors s' = Json 200 (authors s') \<and>
    (\<forall>a\<in>set (authors s'). a_id a \<noteq> i) \<and>
    getAllBooks s' = Json 200 (books s') \<and>
    (\<forall>b\<in>set (books s'). b_author b \<noteq> a_name au) \<and>
    (\<forall>rx q. \<forall>b\<in>set (page_books rx s' q). b_author b \<noteq> a_name au)"
proof -
  let ?bs = "books_of (a_name au) s"
  define s1 where "s1 = s\<lparr>bucket := bucket s - set (concat (map book_keys ?bs)),
      books := filter (\<lambda>x. b_id x \<notin> b_id ` set ?bs) (books s)\<rparr>"
  define s' where "s' = s1\<lparr>authors := delete_author i (save_author (au\<lparr>a_books := []\<rparr>) (authors s1))\<rparr>"
  have loop: "delete_books_loop ?bs s = (None, s1)"
    unfolding s1_def using assms(2,3) by (rule delete_books_loop_ok)
  have run: "deleteAuthor s i = (Json 200 ''Author and their books deleted successfully'', s')"
    using assms(1) loop by (simp add: deleteAuthor_def s'_def)
  have gone: "\<forall>b\<in>set (books s'). b_author b \<noteq> a_name au"
    by (auto simp: s'_def s1_def books_of_def)
  have "bucket s' = bucket s - set (concat (map book_keys ?bs))"
    by (simp add: s'_def s1_def)
  moreover have "\<forall>b\<in>set ?bs. find (\<lambda>x. b_id x = b_id b) (books s') = None"
    by (auto simp: s'_def s1_def find_None_iff)
  moreover have "authors s' = delete_author i (save_author (au\<lparr>a_books := []\<rparr>) (authors s))"
    by (simp add: s'_def s1_def)
  moreover have "\<forall>a\<in>set (authors s'). a_id a \<noteq> i"
    by (simp add: s'_def delete_author_def)
  moreover have "\<forall>rx q. \<forall>b\<in>set (page_books rx s' q). b_author b \<noteq> a_name au"
    using gone page_books_subset by fastforce
  ultimately show ?thesis
    using run gone by (auto simp: getAllAuthors_def getAllBooks_def)
qed

text \<open>
  The amended C4 on Ann, the author of both books of the catalogue.
\<close>

theorem deleteAuthor_cascade_witness:
  "find (\<lambda>a. a_id a = 10) (authors ex_store) =
     Some \<lparr>a_id = 10, a_name = ''Ann'', a_image = None, a_books = [1, 2]\<rparr> \<and>
   books_of ''Ann'' ex_store = [book_A, book_B] \<and>
   distinct (concat (map book_keys [book_A, book_B])) \<and>
   set (concat (map book_keys [book_A, book_B])) \<subseteq> bucket ex_store \<and>
   (\<exists>s'. deleteAuthor ex_store 10 = (Json 200 ''Author and their books deleted successfully'', s') \<and>
      bucket s' = {} \<and>
      find (\<lambda>x. b_id x = 1) (books s') = None \<and>
      find (\<lambda>x. b_id x = 2) (books s') = None \<and>
      getAllAuthors s' = Json 200 [\<lparr>a_id = 11, a_name = ''Bob'', a_image = None, a_books = []\<rparr>] \<and>
      getAllBooks s' = Json 200 (books s') \<and>
      (\<forall>b\<in>set (books s'). b_author b \<noteq> ''Ann''))"
proof -
  let ?ann = "\<lparr>a_id = 10, a_name = ''Ann'', a_image = None, a_books = [1, 2]\<rparr>"
  have h1: "find (\<lambda>a. a_id a = 10) (authors ex_store) = Some ?ann"
    by (simp add: ex_defs)
  have owned: "books_of (a_name ?ann) ex_store = [book_A, book_B]"
    by (simp add: books_of_def ex_defs)
  have h2: "distinct (concat (map book_keys (books_of (a_name ?ann) ex_store)))"
    unfolding owned by (simp add: keys_A keys_B)
  have h3: "set (concat (map book_keys (books_of (a_name ?ann) ex_store))) \<subseteq> bucket ex_store"
    unfolding owned by (simp add: keys_A keys_B) (simp add: ex_defs)
  have blobs: "bucket ex_store - set (concat (map book_keys [book_A, book_B])) = {}"
    by (simp add: keys_A keys_B) (auto simp: ex_defs)
  have rest: "delete_author 10 (save_author (?ann\<lparr>a_books := []\<rparr>) (authors ex_store)) =
      [\<lparr>a_id = 11, a_name = ''Bob'', a_image = None, a_books = []\<rparr>]"
    by (simp add: delete_author_def save_author_def ex_defs)
  have ids: "b_id book_A = 1" "b_id book_B = 2"
    by (simp_all add: ex_defs)
  from deleteAuthor_cascade [OF h1 h2 h3] obtain s' where
    s': "deleteAuthor ex_store 10 = (Json 200 ''Author and their books deleted successfully'', s')"
      "bucket s' = bucket ex_store - set (concat (map book_keys (books_of (a_name ?ann) ex_store)))"
      "\<forall>b\<in>set (books_of (a_name ?ann) ex_store). find (\<lambda>x. b_id x = b_id b) (books s') = None"
      "authors s' = delete_author 10 (save_author (?ann\<lparr>a_books := []\<rparr>) (authors ex_store))"
      "getAllAuthors s' = Json 200 (authors s')"
      "getAllBooks s' = Json 200 (books s')"
      "\<forall>b\<in>set (books s'). b_author b \<noteq> a_name ?ann"
    by blast
  from s'(3) have "find (\<lambda>x. b_id x = 1) (books s') = None" "find (\<lambda>x. b_id x = 2) (books s') = None"
    unfolding owned using ids by auto
  moreover from s'(2) have "bucket s' = {}" unfolding owned blobs .
  moreover from s'(4,5) rest have "getAllAuthors s' =
      Json 200 [\<lparr>a_id = 11, a_name = ''Bob'', a_image = None, a_books = []\<rparr>]"
    by simp
  moreover from s'(7) have "\<forall>b\<in>set (books s'). b_author b \<noteq> ''Ann''" by simp
  ultimately have "\<exists>s'. deleteAuthor ex_store 10 = (Json 200 ''Author and their books deleted successfully'', s') \<and>
      bucket s' = {} \<and>
      find (\<lambda>x. b_id x = 1) (books s') = None \<and>
      find (\<lambda>x. b_id x = 2) (books s') = None \<and>
      getAllAuthors s' = Json 200 [\<lparr>a_id = 11, a_name = ''Bob'', a_image = None, a_books = []\<rparr>] \<and>
      getAllBooks s' = Json 200 (books s') \<and>
      (\<forall>b\<in>set (books s'). b_author b \<noteq> ''Ann'')"
    using s'(1,6) by blast
  moreover have "books_of ''Ann'' ex_store = [book_A, book_B]"
    using owned by simp
  ultimately show ?thesis
    using h1 h2 h3 unfolding owned by blast
qed

subsection \<open>A blob that is already absent\<close>

text \<open>
  C7, as stated, fails: in the catalogue that lost the source of B, deleteBookById on B
  answers with the error of the storage, does so again when it is retried on the store it
  left, and deleteAuthor on the author of B answers with the error as well.
\<close>

theorem deleteBookById_lost_source_fails:
  "find (\<lambda>b. b_id b = 2) (books ex_store_lost_source) = Some book_B \<and>
   fst (deleteBookById ex_store_lost_source 2) =
     Next (AppError ''Failed to delete book: '' (StorageDeleteError ''books/b'') 500) \<and>
   fst (deleteBookById (snd (deleteBookById ex_store_lost_source 2)) 2) =
     Next (AppError ''Failed to delete book: '' (StorageDeleteError ''books/b'') 500) \<and>
   fst (deleteAuthor ex_store_lost_source 10) =
     Next (AppError ''Failed to delete author and books: '' (StorageDeleteError ''books/b'') 500)"
  by (simp add: deleteBookById_def deleteAuthor_def books_of_def delete_book_def
      unlink_defs key_defs ex_defs)

text \<open>
  C7, amended. When a blob of an existing book is not in the bucket, deleteBookById
  aborts at the first of the three deletions (source, cover, sample) whose blob is not
  there: it answers with a 500 error that wraps the error of the storage for that blob,
  after the references to the book were removed and the blobs before it deleted. The
  record of the book is kept and the blob is still absent, so that a retry meets the same
  condition. When the blobs of the books with the name of an existing author are not all
  in the bucket and pairwise different, deleteAuthor aborts at the first deletion whose
  blob is not in the bucket at that moment, absent from the start or deleted earlier in
  the same run: it answers with a 500 error that wraps the error of the storage for that
  blob, the books before it and their blobs are deleted, and the record of the author is
  kept.
\<close>

theorem delete_absent_blob_aborts:
  "(find (\<lambda>b. b_id b = i) (books s) = Some bk \<and> \<not> set (book_keys bk) \<subseteq> bucket s \<longrightarrow>
      (\<exists>ks1 k ks2 s'.
         book_keys bk = ks1 @ k # ks2 \<and> set ks1 \<subseteq> bucket s \<and> k \<notin> bucket s \<and>
         deleteBookById s i =
           (Next (AppError ''Failed to delete book: '' (StorageDeleteError k) 500), s') \<and>
         s' = (unlink_book bk s)\<lparr>bucket := bucket s - set ks1\<rparr> \<and>
         find (\<lambda>b. b_id b = i) (books s') = Some bk \<and>
         \<not> set (book_keys bk) \<subseteq> bucket s')) \<and>
   (find (\<lambda>a. a_id a = j) (authors s) = Some au \<and>
    \<not> (distinct (concat (map book_keys (books_of (a_name au) s))) \<and>
       set (concat (map book_keys (books_of (a_name au) s))) \<subseteq> bucket s) \<longrightarrow>
      (\<exists>bs1 b bs2 ks1 k ks2 s'.
         books_of (a_name au) s = bs1 @ b # bs2 \<and> book_keys b = ks1 @ k # ks2 \<and>
         distinct (concat (map book_keys bs1) @ ks1) \<and>
         set (concat (map book_keys bs1) @ ks1) \<subseteq> bucket s \<and>
         (k \<notin> bucket s \<or> k \<in> set (concat (map book_keys bs1) @ ks1)) \<and>
         deleteAuthor s j =
           (Next (AppError ''Failed to delete author and books: '' (StorageDeleteError k) 500), s') \<and>
         s' = s\<lparr>bucket := bucket s - set (concat (map book_keys bs1) @ ks1),
                 books := filter (\<lambda>x. b_id x \<notin> b_id ` set bs1) (books s)\<rparr> \<and>
         find (\<lambda>a. a_id a = j) (authors s') = Some au))"
proof (intro conjI impI)
  assume a: "find (\<lambda>b. b_id b = i) (books s) = Some bk \<and> \<not> set (book_keys bk) \<subseteq> bucket s"
  obtain r blobs where run: "delete_keys (book_keys bk) (bucket s) = (r, blobs)"
    by (cases "delete_keys (book_keys bk) (bucket s)")
  from a obtain e where e: "r = Some e"
    using delete_keys_fail [of "book_keys bk" "bucket s"] run by auto
  from run e obtain ks1 k ks2 where
    d: "book_keys bk = ks1 @ k # ks2" "set ks1 \<subseteq> bucket s" "k \<notin> bucket s \<or> k \<in> set ks1"
      "e = StorageDeleteError k" "blobs = bucket s - set ks1"
    using delete_keys_abort [of "book_keys bk" "bucket s" e blobs] by blast
  have "distinct (ks1 @ k # ks2)"
    using book_keys_distinct [of bk] unfolding d(1) .
  then have fresh: "k \<notin> set ks1" by auto
  with d(3) have absent: "k \<notin> bucket s" by blast
  define s' where "s' = (unlink_book bk s)\<lparr>bucket := bucket s - set ks1\<rparr>"
  have res: "deleteBookById s i =
      (Next (AppError ''Failed to delete book: '' (StorageDeleteError k) 500), s')"
    using a run e d(4,5) by (simp add: deleteBookById_def s'_def)
  have kept: "find (\<lambda>b. b_id b = i) (books s') = Some bk"
    using a by (simp add: s'_def)
  have "k \<in> set (book_keys bk)" unfolding d(1) by simp
  moreover have "k \<notin> bucket s'" using absent by (simp add: s'_def)
  ultimately have still: "\<not> set (book_keys bk) \<subseteq> bucket s'" by blast
  from d(1,2) absent res kept still s'_def
  show "\<exists>ks1 k ks2 s'.
         book_keys bk = ks1 @ k # ks2 \<and> set ks1 \<subseteq> bucket s \<and> k \<notin> bucket s \<and>
         deleteBookById s i =
           (Next (AppError ''Failed to delete book: '' (StorageDeleteError k) 500), s') \<and>
         s' = (unlink_book bk s)\<lparr>bucket := bucket s - set ks1\<rparr> \<and>
         find (\<lambda>b. b_id b = i) (books s') = Some bk \<and>
         \<not> set (book_keys bk) \<subseteq> bucket s'"
    by blast
next
  let ?bs = "books_of (a_name au) s"
  assume a: "find (\<lambda>a. a_id a = j) (authors s) = Some au \<and>
    \<not> (distinct (concat (map book_keys ?bs)) \<and> set (concat (map book_keys ?bs)) \<subseteq> bucket s)"
  obtain r s1 where run: "delete_books_loop ?bs s = (r, s1)"
    by (cases "delete_books_loop ?bs s")
  from a run obtain e where e: "r = Some e"
    using delete_books_loop_none [of ?bs s s1] by (cases r) auto
  from run e obtain bs1 b bs2 ks1 k ks2 where
    d: "?bs = bs1 @ b # bs2" "book_keys b = ks1 @ k # ks2"
      "distinct (concat (map book_keys bs1) @ ks1)"
      "set (concat (map book_keys bs1) @ ks1) \<subseteq> bucket s"
      "k \<notin> bucket s \<or> k \<in> set (concat (map book_keys bs1) @ ks1)"
      "e = StorageDeleteError k"
      "s1 = s\<lparr>bucket := bucket s - set (concat (map book_keys bs1) @ ks1),
             books := filter (\<lambda>x. b_id x \<notin> b_id ` set bs1) (books s)\<rparr>"
    using delete_books_loop_abort [of ?bs s e s1] by blast
  have res: "deleteAuthor s j =
      (Next (AppError ''Failed to delete author and books: '' (StorageDeleteError k) 500), s1)"
    using a run e d(6) by (simp add: deleteAuthor_def)
  have kept: "find (\<lambda>a. a_id a = j) (authors s1) = Some au"
    using a by (simp add: d(7))
  from d(1-5) res d(7) kept
  show "\<exists>bs1 b bs2 ks1 k ks2 s'.
         books_of (a_name au) s = bs1 @ b # bs2 \<and> book_keys b = ks1 @ k # ks2 \<and>
         distinct (concat (map book_keys bs1) @ ks1) \<and>
         set (concat (map book_keys bs1) @ ks1) \<subseteq> bucket s \<and>
         (k \<notin> bucket s \<or> k \<in> set (concat (map book_keys bs1) @ ks1)) \<and>
         deleteAuthor s j =
           (Next (AppError ''Failed to delete author and books: '' (StorageDeleteError k) 500), s') \<and>
         s' = s\<lparr>bucket := bucket s - set (concat (map book_keys bs1) @ ks1),
                 books := filter (\<lambda>x. b_id x \<notin> b_id ` set bs1) (books s)\<rparr> \<and>
         find (\<lambda>a. a_id a = j) (authors s') = Some au"
    by blast
qed

text \<open>
  The amended C7 on book B and its author, in the catalogue that lost the source of B.
\<close>

theorem delete_absent_blob_aborts_witness:
  "find (\<lambda>b. b_id b = 2) (books ex_store_lost_source) = Some book_B \<and>
   \<not> set (book_keys book_B) \<subseteq> bucket ex_store_lost_source \<and>
   (\<exists>ks1 k ks2 s'.
      book_keys book_B = ks1 @ k # ks2 \<and> set ks1 \<subseteq> bucket ex_store_lost_source \<and>
      k \<notin> bucket ex_store_lost_source \<and>
      deleteBookById ex_store_lost_source 2 =
        (Next (AppError ''Failed to delete book: '' (StorageDeleteError k) 500), s') \<and>
      s' = (unlink_book book_B ex_store_lost_source)\<lparr>bucket := bucket ex_store_lost_source - set ks1\<rparr> \<and>
      find (\<lambda>b. b_id b = 2) (books s') = Some book_B \<and>
      \<not> set (book_keys book_B) \<subseteq> bucket s') \<and>
   find (\<lambda>a. a_id a = 10) (authors ex_store_lost_source) =
     Some \<lparr>a_id = 10, a_name = ''Ann'', a_image = None, a_books = [1, 2]\<rparr> \<and>
   books_of ''Ann'' ex_store_lost_source = [book_A, book_B] \<and>
   \<not> set (concat (map book_keys [book_A, book_B])) \<subseteq> bucket ex_store_lost_source \<and>
   (\<exists>bs1 b bs2 ks1 k ks2 s'.
      [book_A, book_B] = bs1 @ b # bs2 \<and> book_keys b = ks1 @ k # ks2 \<and>
      distinct (concat (map book_keys bs1) @ ks1) \<and>
      set (concat (map book_keys bs1) @ ks1) \<subseteq> bucket ex_store_lost_source \<and>
      (k \<notin> bucket ex_store_lost_source \<or> k \<in> set (concat (map book_keys bs1) @ ks1)) \<and>
      deleteAuthor ex_store_lost_source 10 =
        (Next (AppError ''Failed to delete author and books: '' (StorageDeleteError k) 500), s') \<and>
      s' = ex_store_lost_source
             \<lparr>bucket := bucket ex_store_lost_source - set (concat (map book_keys bs1) @ ks1),
              books := filter (\<lambda>x. b_id x \<notin> b_id ` set bs1) (books ex_store_lost_source)\<rparr> \<and>
      find (\<lambda>a. a_id a = 10) (authors s') =
        Some \<lparr>a_id = 10, a_name = ''Ann'', a_image = None, a_books = [1, 2]\<rparr>)"
proof -
  let ?ann = "\<lparr>a_id = 10, a_name = ''Ann'', a_image = None, a_books = [1, 2]\<rparr>"
  let ?s = ex_store_lost_source
  have h1: "find (\<lambda>b. b_id b = 2) (books ?s) = Some book_B"
    by (simp add: ex_defs)
  have h2: "\<not> set (book_keys book_B) \<subseteq> bucket ?s"
    by (simp add: keys_B) (simp add: ex_defs)
  have h3: "find (\<lambda>a. a_id a = 10) (authors ?s) = Some ?ann"
    by (simp add: ex_defs)
  have owned: "books_of (a_name ?ann) ?s = [book_A, book_B]"
    by (simp add: books_of_def ex_defs)
  have h4: "\<not> set (concat (map book_keys [book_A, book_B])) \<subseteq> bucket ?s"
    by (simp add: keys_A keys_B) (simp add: ex_defs)
  then have h5: "\<not> (distinct (concat (map book_keys (books_of (a_name ?ann) ?s))) \<and>
      set (concat (map book_keys (books_of (a_name ?ann) ?s))) \<subseteq> bucket ?s)"
    unfolding owned by blast
  note both = delete_absent_blob_aborts [of 2 ?s book_B 10 ?ann]
  from both h1 h2 have book: "\<exists>ks1 k ks2 s'.
      book_keys book_B = ks1 @ k # ks2 \<and> set ks1 \<subseteq> bucket ?s \<and> k \<notin> bucket ?s \<and>
      deleteBookById ?s 2 =
        (Next (AppError ''Failed to delete book: '' (StorageDeleteError k) 500), s') \<and>
      s' = (unlink_book book_B ?s)\<lparr>bucket := bucket ?s - set ks1\<rparr> \<and>
      find (\<lambda>b. b_id b = 2) (books s') = Some book_B \<and>
      \<not> set (book_keys book_B) \<subseteq> bucket s'"
    by blast
  from both h3 h5 have "\<exists>bs1 b bs2 ks1 k ks2 s'.
      books_of (a_name ?ann) ?s = bs1 @ b # bs2 \<and> book_keys b = ks1 @ k # ks2 \<and>
      distinct (concat (map book_keys bs1) @ ks1) \<and>
      set (concat (map book_keys bs1) @ ks1) \<subseteq> bucket ?s \<and>
      (k \<notin> bucket ?s \<or> k \<in> set (concat (map book_keys bs1) @ ks1)) \<and>
      deleteAuthor ?s 10 =
        (Next (AppError ''Failed to delete author and books: '' (StorageDeleteError k) 500), s') \<and>
      s' = ?s\<lparr>bucket := bucket ?s - set (concat (map book_keys bs1) @ ks1),
              books := filter (\<lambda>x. b_id x \<notin> b_id ` set bs1) (books ?s)\<rparr> \<and>
      find (\<lambda>a. a_id a = 10) (authors s') = Some ?ann"
    by blast
  then have author: "\<exists>bs1 b bs2 ks1 k ks2 s'.
      [book_A, book_B] = bs1 @ b # bs2 \<and> book_keys b = ks1 @ k # ks2 \<and>
      distinct (concat (map book_keys bs1) @ ks1) \<and>
      set (concat (map book_keys bs1) @ ks1) \<subseteq> bucket ?s \<and>
      (k \<notin> bucket ?s \<or> k \<in> set (concat (map book_keys bs1) @ ks1)) \<and>
      deleteAuthor ?s 10 =
        (Next (AppError ''Failed to delete author and books: '' (StorageDeleteError k) 500), s') \<and>
      s' = ?s\<lparr>bucket := bucket ?s - set (concat (map book_keys bs1) @ ks1),
              books := filter (\<lambda>x. b_id x \<notin> b_id ` set bs1) (books ?s)\<rparr> \<and>
      find (\<lambda>a. a_id a = 10) (authors s') = Some ?ann"
    unfolding owned .
  have owned': "books_of ''Ann'' ?s = [book_A, book_B]"
    using owned by simp
  from h1 h2 book h3 owned' h4 author show ?thesis by (intro conjI)
qed

subsection \<open>The access projection\<close>

lemma item_loop_iff: "item_loop str xs p \<longleftrightarrow> p \<in> str ` set xs"
  by (induction xs) auto

lemma order_loop_iff: "order_loop str os p \<longleftrightarrow> (\<exists>x\<in>set os. p \<in> str ` set (o_books x))"
  by (induction os) (auto simp: item_loop_iff)

text \<open>
  For every request whose text is read as the identifier of an existing book, the
  object of the response holds the source URL exactly when there is a requester and one
  of the requester's orders has a line item whose identifier prints as the text of the
  request; otherwise it has no \<^verbatim>\<open>sourcePath\<close>. The URLs of the cover and of the
  sample are in the object in every case.
\<close>

lemma getBookById_source_iff:
  assumes "cast_id c p = Some i" and "find (\<lambda>b. b_id b = i) (books s) = Some bk"
  shows "\<exists>ob. getBookById c s user p = Json 200 ob \<and>
     (if \<exists>u x. user = Some u \<and> x \<in> set (orders s) \<and> o_userId x = u \<and>
           p \<in> id_string c ` set (o_books x)
      then map_of ob ''sourcePath'' = Some (VStr (b_sourcePath bk))
      else ''sourcePath'' \<notin> fst ` set ob) \<and>
     map_of ob ''coverImage'' = Some (VStr (b_coverImage bk)) \<and>
     map_of ob ''samplePdf'' = Some (VStr (b_samplePdf bk))"
proof -
  have full: "map_of (toObject bk) ''sourcePath'' = Some (VStr (b_sourcePath bk))"
    "map_of (toObject bk) ''coverImage'' = Some (VStr (b_coverImage bk))"
    "map_of (toObject bk) ''samplePdf'' = Some (VStr (b_samplePdf bk))"
    by (simp_all add: toObject_def)
  have cut: "''sourcePath'' \<notin> fst ` set (without_sourcePath (toObject bk))"
    "map_of (without_sourcePath (toObject bk)) ''coverImage'' = Some (VStr (b_coverImage bk))"
    "map_of (without_sourcePath (toObject bk)) ''samplePdf'' = Some (VStr (b_samplePdf bk))"
    by (auto simp: without_sourcePath_def toObject_def)
  show ?thesis
  proof (cases user)
    case None
    with assms cut show ?thesis by (simp add: getBookById_def)
  next
    case (Some u)
    have "order_loop (id_string c) (filter (\<lambda>x. o_userId x = u) (orders s)) p \<longleftrightarrow>
        (\<exists>x\<in>set (orders s). o_userId x = u \<and> p \<in> id_string c ` set (o_books x))"
      by (auto simp: order_loop_iff)
    with Some assms full cut show ?thesis
      by (auto simp: getBookById_def Let_def)
  qed
qed

text \<open>
  C5. Requester 60 has an order with a line item of book 10. Asked with the identifier
  in upper case, which \<^verbatim>\<open>findById\<close> reads as the identifier of the book, getBookById
  answers with the book without \<^verbatim>\<open>sourcePath\<close>, because the line item prints in lower
  case; asked with the identifier in lower case it answers with the source URL.
\<close>

theorem getBookById_upper_case_buyer:
  "cast_id hex_ids ''00000000000000000000000A'' = Some 10 \<and>
   find (\<lambda>b. b_id b = 10) (books ex_store_hex) = Some book_hex \<and>
   orders ex_store_hex = [\<lparr>o_id = 50, o_userId = 60, o_books = [10]\<rparr>] \<and>
   (case getBookById hex_ids ex_store_hex (Some 60) ''00000000000000000000000A'' of
      Json code ob \<Rightarrow>
        code = 200 \<and> map_of ob ''sourcePath'' = None \<and>
        map_of ob ''coverImage'' = Some (VStr ''u/covers/a?k'')
    | _ \<Rightarrow> False) \<and>
   (case getBookById hex_ids ex_store_hex (Some 60) ''00000000000000000000000a'' of
      Json code ob \<Rightarrow>
        code = 200 \<and> map_of ob ''sourcePath'' = Some (VStr ''u/books/a?k'')
    | _ \<Rightarrow> False)"
  by (simp add: getBookById_def hex_ids_def hex_cast_upper hex_cast_lower hex_string_10
      toObject_def without_sourcePath_def Let_def ex_store_hex_def book_hex_def ex_defs)

subsection \<open>createBook fails before it writes\<close>

lemma createBook_failure_leaves_store:
  "\<forall>body. fst (createBook e s r) \<noteq> Json 201 body \<Longrightarrow> snd (createBook e s r) = s"
  unfolding createBook_def
  by (simp add: Let_def split: sum.splits option.splits prod.splits)

lemma createBook_unknown_author:
  "first_file (cb_files r) ''file'' = Inr (Some f1) \<Longrightarrow>
   first_file (cb_files r) ''cover'' = Inr (Some f2) \<Longrightarrow>
   first_file (cb_files r) ''sample'' = Inr (Some f3) \<Longrightarrow>
   find (\<lambda>a. a_name a = cb_authorName r) (authors s) = None \<Longrightarrow>
   createBook e s r = (ErrorJson 404 ''Author not found'', s)"
  by (simp add: createBook_def)

lemma createBook_unknown_category:
  "first_file (cb_files r) ''file'' = Inr (Some f1) \<Longrightarrow>
   first_file (cb_files r) ''cover'' = Inr (Some f2) \<Longrightarrow>
   first_file (cb_files r) ''sample'' = Inr (Some f3) \<Longrightarrow>
   find (\<lambda>a. a_name a = cb_authorName r) (authors s) = Some au \<Longrightarrow>
   find (\<lambda>c. c_title c = cb_category r) (categories s) = None \<Longrightarrow>
   createBook e s r = (ErrorJson 404 ''Category not found'', s)"
  by (simp add: createBook_def)

text \<open>
  C6. A request to create a book that carries the book file and the sample but no cover:
  \<^verbatim>\<open>req.files["cover"][0]\<close> throws a TypeError, which goes to \<^verbatim>\<open>next\<close>; the
  response with status 400 that the controller has for a missing file is not reached. The
  store is unchanged.
\<close>

theorem createBook_missing_cover:
  "createBook ex_env ex_store
     (ex_create\<lparr>cb_files := Some [''file'' \<mapsto> [ex_upload ''c1''], ''sample'' \<mapsto> [ex_upload ''c3'']]\<rparr>) =
     (Next TypeError, ex_store)"
  by (simp add: createBook_def first_file_def ex_create_def)

subsection \<open>Sorting by price\<close>











subsection \<open>The references between books, authors and categories are not kept\<close>

text \<open>
  C9. In the catalogue the lists of the authors and of the category agree with the books.
  Updating B with the name of another author leaves B in the list of Ann and out of the
  list of Bob; deleting Ann, which deletes her books, leaves their ids in the list of the
  category; renaming Ann leaves her books with the previous name. Each of the three
  requests succeeds.
\<close>

theorem write_paths_break_references:
  "author_refs_ok ex_store \<and> category_refs_ok ex_store \<and>
   fst (updateBookById ex_env ex_store 2 (ex_update\<lparr>ub_authorName := Some ''Bob''\<rparr>)) =
     Json 200 (book_B\<lparr>b_author := ''Bob''\<rparr>) \<and>
   \<not> author_refs_ok (snd (updateBookById ex_env ex_store 2 (ex_update\<lparr>ub_authorName := Some ''Bob''\<rparr>))) \<and>
   fst (deleteAuthor ex_store 10) = Json 200 ''Author and their books deleted successfully'' \<and>
   \<not> category_refs_ok (snd (deleteAuthor ex_store 10)) \<and>
   \<not> author_refs_ok (snd (updateAuthor ex_env ex_store 10 \<lparr>ua_name = Some ''Anna'', ua_files = None\<rparr>))"
proof -
  have start: "author_refs_ok ex_store" "category_refs_ok ex_store"
    by (simp_all add: author_refs_ok_def category_refs_ok_def books_of_def ex_defs)
  have upd: "updateBookById ex_env ex_store 2 (ex_update\<lparr>ub_authorName := Some ''Bob''\<rparr>) =
      (Json 200 (book_B\<lparr>b_author := ''Bob''\<rparr>),
       ex_store\<lparr>books := [book_A, book_B\<lparr>b_author := ''Bob''\<rparr>]\<rparr>)"
    by (simp add: updateBookById_def update_discountedPrice_def update_originalPrice_def
        slot_def upload_slot_def save_book_def List.map_filter_def Let_def ex_defs)
  have broken1: "\<not> author_refs_ok (ex_store\<lparr>books := [book_A, book_B\<lparr>b_author := ''Bob''\<rparr>]\<rparr>)"
    by (simp add: author_refs_ok_def books_of_def ex_defs)
  have loop: "delete_books_loop [book_A, book_B] ex_store =
      (None, ex_store\<lparr>bucket := {}, books := []\<rparr>)"
    by (simp add: keys_A keys_B bucket_delete_def delete_book_def)
       (simp add: ex_defs)
  have del: "deleteAuthor ex_store 10 =
      (Json 200 ''Author and their books deleted successfully'',
       ex_store\<lparr>bucket := {}, books := [],
         authors := [\<lparr>a_id = 11, a_name = ''Bob'', a_image = None, a_books = []\<rparr>]\<rparr>)"
  proof -
    have "books_of ''Ann'' ex_store = [book_A, book_B]"
      by (simp add: books_of_def ex_defs)
    moreover have "find (\<lambda>a. a_id a = 10) (authors ex_store) =
        Some \<lparr>a_id = 10, a_name = ''Ann'', a_image = None, a_books = [1, 2]\<rparr>"
      by (simp add: ex_defs)
    ultimately show ?thesis
      using loop by (simp add: deleteAuthor_def save_author_def delete_author_def) (simp add: ex_defs)
  qed
  have broken2: "\<not> category_refs_ok (ex_store\<lparr>bucket := {}, books := [],
         authors := [\<lparr>a_id = 11, a_name = ''Bob'', a_image = None, a_books = []\<rparr>]\<rparr>)"
    by (simp add: category_refs_ok_def ex_defs)
  have broken3: "\<not> author_refs_ok (snd (updateAuthor ex_env ex_store 10 \<lparr>ua_name = Some ''Anna'', ua_files = None\<rparr>))"
    by (simp add: updateAuthor_def image_file_def save_author_def author_refs_ok_def books_of_def Let_def ex_defs)
  show ?thesis
    using start broken1 broken2 broken3 by (simp add: upd del)
qed

subsection \<open>An author that does not exist\<close>

text \<open>
  C10, as stated, fails: the text \<^verbatim>\<open>xyz\<close> is the identifier of no author, and
  getAuthorById answers it with a 500 error, since it is no ObjectId and the query is
  rejected.
\<close>

theorem getAuthorById_bad_id_fails:
  "cast_id hex_ids ''xyz'' = None \<and>
   ''xyz'' \<notin> id_string hex_ids ` a_id ` set (authors ex_store) \<and>
   getAuthorById hex_ids ex_store ''xyz'' =
     Next (AppError ''Failed to get author: '' CastError 500)"
  using hex_string_not_short
  by (auto simp: getAuthorById_def hex_ids_def hex_cast_bad dest: sym)

text \<open>
  C10, amended. For a text that is read as an identifier that no author has,
  getAuthorById answers with status 200 and the body \<^verbatim>\<open>null\<close>, where updateAuthor and
  deleteAuthor answer with status 404, as getBookById does for an identifier that no
  book has. For a text that is not read as an identifier, getAuthorById answers with a
  500 error that wraps the CastError.
\<close>

theorem getAuthorById_missing_is_null:
  "(cast_id c p = Some i \<and> find (\<lambda>a. a_id a = i) (authors s) = None \<longrightarrow>
      getAuthorById c s p = Json 200 None \<and>
      updateAuthor e s i r = (ErrorJson 404 ''Author not found'', s) \<and>
      deleteAuthor s i = (ErrorJson 404 ''Author not found'', s)) \<and>
   (cast_id c p = None \<longrightarrow>
      getAuthorById c s p = Next (AppError ''Failed to get author: '' CastError 500)) \<and>
   (cast_id c p = Some i \<and> find (\<lambda>b. b_id b = i) (books s) = None \<longrightarrow>
      getBookById c s user p = ErrorJson 404 ''Book not found'')"
  by (simp add: getAuthorById_def updateAuthor_def deleteAuthor_def getBookById_def)

text \<open>
  The amended C10 on the catalogue, where nothing has the identifier 99.
\<close>

theorem getAuthorById_missing_is_null_witness:
  "cast_id hex_ids ''000000000000000000000063'' = Some 99 \<and>
   find (\<lambda>a. a_id a = 99) (authors ex_store) = None \<and>
   find (\<lambda>b. b_id b = 99) (books ex_store) = None \<and>
   getAuthorById hex_ids ex_store ''000000000000000000000063'' = Json 200 None \<and>
   updateAuthor ex_env ex_store 99 \<lparr>ua_name = Some ''Zed'', ua_files = None\<rparr> =
     (ErrorJson 404 ''Author not found'', ex_store) \<and>
   deleteAuthor ex_store 99 = (ErrorJson 404 ''Author not found'', ex_store) \<and>
   getBookById hex_ids ex_store None ''000000000000000000000063'' = ErrorJson 404 ''Book not found'' \<and>
   cast_id hex_ids ''xyz'' = None \<and>
   getAuthorById hex_ids ex_store ''xyz'' = Next (AppError ''Failed to get author: '' CastError 500)"
proof -
  have h1: "cast_id hex_ids ''000000000000000000000063'' = Some 99"
    and h2: "cast_id hex_ids ''xyz'' = None"
    by (simp_all add: hex_ids_def hex_cast_99 hex_cast_bad)
  have h3: "find (\<lambda>a. a_id a = 99) (authors ex_store) = None"
    and h4: "find (\<lambda>b. b_id b = 99) (books ex_store) = None"
    by (simp_all add: ex_defs)
  note good = getAuthorById_missing_is_null
    [of hex_ids "''000000000000000000000063''" 99 ex_store ex_env
      "\<lparr>ua_name = Some ''Zed'', ua_files = None\<rparr>" None]
  note bad = getAuthorById_missing_is_null [of hex_ids "''xyz''" 0 ex_store]
  from good h1 h3 have a: "getAuthorById hex_ids ex_store ''000000000000000000000063'' = Json 200 None"
    and b: "updateAuthor ex_env ex_store 99 \<lparr>ua_name = Some ''Zed'', ua_files = None\<rparr> =
      (ErrorJson 404 ''Author not found'', ex_store)"
    and c: "deleteAuthor ex_store 99 = (ErrorJson 404 ''Author not found'', ex_store)"
    by blast+
  from good h1 h4 have d: "getBookById hex_ids ex_store None ''000000000000000000000063'' =
      ErrorJson 404 ''Book not found''"
    by blast
  from bad h2 have e: "getAuthorById hex_ids ex_store ''xyz'' =
      Next (AppError ''Failed to get author: '' CastError 500)"
    by blast
  from h1 h3 h4 a b c d h2 e show ?thesis by (intro conjI)
qed

end
